theory Spec2Isabelle
  imports Complex_Main
begin

section \<open>Python values: errors, indexing, strings\<close>

text \<open>
  The two source files are \<^verbatim>\<open>models/text/attentive_rnn.py\<close> (class \<^verbatim>\<open>AttentiveRNN\<close>)
  and \<^verbatim>\<open>models/tabular/transformers/saint.py\<close> (class \<^verbatim>\<open>SAINT\<close>). Every \<^verbatim>\<open>raise\<close>,
  failed \<^verbatim>\<open>assert\<close>, read of an unassigned local and out-of-range index of the
  source is a value of \<open>error\<close>; a function that can fail returns \<open>error + 'a\<close>.
\<close>

datatype error =
    ValueError string
  | AssertionError string
  | UnboundLocalError string
  | AttributeError string
  | IndexError
  | RuntimeError

text \<open>The position that the index \<open>i\<close> of Python denotes in a dimension of size \<open>n\<close>: a
  negative index counts from the end, an index out of range raises \<^verbatim>\<open>IndexError\<close>.\<close>

definition py_index :: "nat \<Rightarrow> int \<Rightarrow> error + nat" where
  "py_index n i =
     (let j = (if i < 0 then int n + i else i)
      in if 0 \<le> j \<and> j < int n then Inr (nat j) else Inl IndexError)"

text \<open>\<^verbatim>\<open>str.lower()\<close>. A \<open>string\<close> is a list of bytes; the upper-case ASCII letters
  are mapped to lower case and every other byte is kept. The only use in the source is
  the comparison of \<^verbatim>\<open>rnn_type.lower()\<close> with \<^verbatim>\<open>"lstm"\<close> and \<^verbatim>\<open>"gru"\<close>, and no
  character outside ASCII lower-cases to one of the letters of these two words.\<close>

definition lower_char :: "char \<Rightarrow> char" where
  "lower_char c =
     (let n = (of_char c :: nat) in if 65 \<le> n \<and> n \<le> 90 then char_of (n + 32) else c)"

definition lower :: "string \<Rightarrow> string" where
  "lower s = map lower_char s"

text \<open>\<^verbatim>\<open>str(i)\<close> of a non-negative integer: its decimal digits.\<close>

definition digit_char :: "nat \<Rightarrow> char" where
  "digit_char d = char_of (48 + d)"

fun str_nat :: "nat \<Rightarrow> string" where
  "str_nat n = (if n < 10 then [digit_char n] else str_nat (n div 10) @ [digit_char (n mod 10)])"

declare str_nat.simps [simp del]

section \<open>Tensors and the tensor operations the source calls\<close>

text \<open>
  A tensor is its shape and its elements by index. The element type is a parameter:
  the source only moves elements around (concatenate, broadcast, permute, index,
  flatten); all arithmetic happens inside framework layers. What those layers compute
  is the parameter \<open>num\<close> of the forward functions: \<open>num name inputs idx\<close> is the
  element at \<open>idx\<close> of the output of the layer called \<open>name\<close> on \<open>inputs\<close>.
  The shape rules of the operations and layers are those of the tensor framework.
  The elements of a tensor are meaningful at the indices within its shape only.
\<close>

record 'a tensor =
  shape :: "nat list"
  elem :: "nat list \<Rightarrow> 'a"

type_synonym 'a numerics = "string \<Rightarrow> 'a tensor list \<Rightarrow> nat list \<Rightarrow> 'a"

text \<open>\<^verbatim>\<open>x[i]\<close>: index the first dimension.\<close>

definition index0 :: "'a tensor \<Rightarrow> int \<Rightarrow> error + 'a tensor" where
  "index0 x i =
     (case shape x of
        [] \<Rightarrow> Inl IndexError
      | n # ds \<Rightarrow>
          (case py_index n i of
             Inl e \<Rightarrow> Inl e
           | Inr j \<Rightarrow> Inr \<lparr>shape = ds, elem = (\<lambda>idx. elem x (j # idx))\<rparr>))"

text \<open>\<^verbatim>\<open>x[:, i, :]\<close> on a tensor of three dimensions.\<close>

definition select_mid :: "'a tensor \<Rightarrow> int \<Rightarrow> error + 'a tensor" where
  "select_mid x i =
     (case shape x of
        [b, n, d] \<Rightarrow>
          (case py_index n i of
             Inl e \<Rightarrow> Inl e
           | Inr j \<Rightarrow> Inr \<lparr>shape = [b, d], elem = (\<lambda>idx. elem x [idx ! 0, j, idx ! 1])\<rparr>)
      | _ \<Rightarrow> Inl IndexError)"

text \<open>\<^verbatim>\<open>torch.cat([x, y], axis)\<close>: the shapes agree outside \<open>axis\<close>.\<close>

definition torch_cat :: "'a tensor \<Rightarrow> 'a tensor \<Rightarrow> nat \<Rightarrow> error + 'a tensor" where
  "torch_cat x y axis =
     (let sx = shape x; sy = shape y
      in if length sx = length sy \<and> axis < length sx \<and> sx[axis := 0] = sy[axis := 0]
         then Inr \<lparr>shape = sx[axis := sx ! axis + sy ! axis],
                   elem = (\<lambda>idx. if idx ! axis < sx ! axis then elem x idx
                               else elem y (idx[axis := idx ! axis - sx ! axis]))\<rparr>
         else Inl RuntimeError)"

text \<open>\<^verbatim>\<open>x.unsqueeze(axis)\<close>: a new dimension of size 1 at \<open>axis\<close>.\<close>

definition unsqueeze :: "'a tensor \<Rightarrow> nat \<Rightarrow> error + 'a tensor" where
  "unsqueeze x axis =
     (if axis \<le> length (shape x)
      then Inr \<lparr>shape = take axis (shape x) @ 1 # drop axis (shape x),
                elem = (\<lambda>idx. elem x (take axis idx @ drop (Suc axis) idx))\<rparr>
      else Inl IndexError)"

text \<open>\<^verbatim>\<open>x.expand_as(y)\<close>: each dimension of \<open>x\<close>, aligned from the right, is the
  dimension of \<open>y\<close> or has size 1 and is repeated.\<close>

definition expandable :: "nat list \<Rightarrow> nat list \<Rightarrow> bool" where
  "expandable sx sy \<longleftrightarrow>
     length sx \<le> length sy \<and>
     list_all (\<lambda>(a, b). a = b \<or> a = 1) (zip sx (drop (length sy - length sx) sy))"

definition expand_as :: "'a tensor \<Rightarrow> 'a tensor \<Rightarrow> error + 'a tensor" where
  "expand_as x y =
     (let sx = shape x; sy = shape y
      in if expandable sx sy
         then Inr \<lparr>shape = sy,
                   elem = (\<lambda>idx. elem x (map (\<lambda>(a, i). if a = 1 then 0 else i)
                                        (zip sx (drop (length sy - length sx) idx))))\<rparr>
         else Inl RuntimeError)"

text \<open>\<^verbatim>\<open>x.permute(1, 0, 2)\<close>: swap the first two of three dimensions.\<close>

definition permute_102 :: "'a tensor \<Rightarrow> error + 'a tensor" where
  "permute_102 x =
     (case shape x of
        [a, b, c] \<Rightarrow> Inr \<lparr>shape = [b, a, c], elem = (\<lambda>idx. elem x [idx ! 1, idx ! 0, idx ! 2])\<rparr>
      | _ \<Rightarrow> Inl RuntimeError)"

text \<open>\<^verbatim>\<open>x.flatten(1)\<close>: the dimensions after the first become one, in row-major
  order.\<close>

fun unravel :: "nat list \<Rightarrow> nat \<Rightarrow> nat list" where
  "unravel [] k = []"
| "unravel (d # ds) k = (k div prod_list ds) # unravel ds (k mod prod_list ds)"

definition flatten1 :: "'a tensor \<Rightarrow> error + 'a tensor" where
  "flatten1 x =
     (case shape x of
        b # d # ds \<Rightarrow>
          Inr \<lparr>shape = [b, prod_list (d # ds)],
               elem = (\<lambda>idx. elem x (idx ! 0 # unravel (d # ds) (idx ! 1)))\<rparr>
      | _ \<Rightarrow> Inl IndexError)"

section \<open>Framework layers\<close>

text \<open>
  The layers below are built by the source through constructor calls and run through
  their forward call. A layer is the record of the arguments it was constructed with.
  \<open>Embedding\<close> and \<open>RNN\<close> are layers of the tensor framework (\<^verbatim>\<open>nn.Embedding\<close>,
  \<^verbatim>\<open>nn.LSTM\<close>, \<^verbatim>\<open>nn.GRU\<close>); their forward functions give the framework's shape rule.
  The framework's own validation of constructor arguments and of token ids is not
  part of the repository and is not modelled.
\<close>

record Embedding =
  num_embeddings :: nat
  embedding_dim :: nat
  emb_padding_idx :: int
  weight_shape :: "nat list"
  weight_requires_grad :: bool

text \<open>\<^verbatim>\<open>word_embed(X.long())\<close>: a vector of the weight's width for every token id.\<close>

definition Embedding_forward :: "'a numerics \<Rightarrow> Embedding \<Rightarrow> 'a tensor \<Rightarrow> error + 'a tensor" where
  "Embedding_forward num emb X =
     (case weight_shape emb of
        [r, c] \<Rightarrow> Inr \<lparr>shape = shape X @ [c], elem = num ''word_embed'' [X]\<rparr>
      | _ \<Rightarrow> Inl RuntimeError)"

datatype rnn_cell = LSTM | GRU

record RNN =
  cell :: rnn_cell
  input_size :: nat
  hidden_size :: nat
  num_layers :: nat
  rnn_bidirectional :: bool
  dropout :: real
  batch_first :: bool

text \<open>\<^verbatim>\<open>self.rnn(embed)\<close> with \<^verbatim>\<open>batch_first=True\<close>: for an input of shape
  (batch, time, input size) the output sequence has shape (batch, time, directions *
  hidden size) and the final hidden state (layers * directions, batch, hidden size).
  For an LSTM the cell state \<open>c\<close> is returned as well; the source never reads it.\<close>

definition num_directions :: "RNN \<Rightarrow> nat" where
  "num_directions r = (if rnn_bidirectional r then 2 else 1)"

definition RNN_forward :: "'a numerics \<Rightarrow> RNN \<Rightarrow> 'a tensor \<Rightarrow> error + ('a tensor \<times> 'a tensor)" where
  "RNN_forward num r x =
     (case shape x of
        [b, t, e] \<Rightarrow>
          if e = input_size r
          then Inr (\<lparr>shape = [b, t, num_directions r * hidden_size r],
                      elem = num ''rnn.output'' [x]\<rparr>,
                    \<lparr>shape = [num_layers r * num_directions r, b, hidden_size r],
                      elem = num ''rnn.hidden'' [x]\<rparr>)
          else Inl RuntimeError
      | _ \<Rightarrow> Inl RuntimeError)"

record ContextAttention =
  ca_input_dim :: nat
  ca_dropout :: real
  sum_along_seq :: bool

text \<open>Modelled from the spec: \<^verbatim>\<open>ContextAttention\<close> (module
  \<^verbatim>\<open>models/tabular/mlp/_attention_layers.py\<close>) is not among the source files. Section
  4.2 of the specification: it collapses a sequence of per-timestep vectors into one
  fixed-width vector, the weighted sum of the timestep vectors; when the summation is
  skipped the weighted sequence is returned instead. The width of the vectors is the
  input dimension the module was constructed with.\<close>

definition ContextAttention_forward ::
  "'a numerics \<Rightarrow> ContextAttention \<Rightarrow> 'a tensor \<Rightarrow> error + 'a tensor" where
  "ContextAttention_forward num ca x =
     (case shape x of
        [b, t, d] \<Rightarrow>
          if d = ca_input_dim ca
          then Inr \<lparr>shape = (if sum_along_seq ca then [b, d] else [b, t, d]),
                     elem = num ''attn'' [x]\<rparr>
          else Inl RuntimeError
      | _ \<Rightarrow> Inl RuntimeError)"

record MLP =
  d_hidden :: "nat list"
  activation :: string
  mlp_p_dropout :: "real option"
  batchnorm :: bool
  batchnorm_last :: bool
  linear_first :: bool

text \<open>Modelled from the spec: \<^verbatim>\<open>MLP\<close> (module \<^verbatim>\<open>models/tabular/mlp/_layers.py\<close>) is
  not among the source files. Section 6 of the specification: given a flat vector and a
  list of hidden-layer widths it returns a transformed flat vector. The source passes
  the width of the input as the first element of the list and declares the last
  element as the width of the result.\<close>

definition MLP_forward :: "'a numerics \<Rightarrow> MLP \<Rightarrow> 'a tensor \<Rightarrow> error + 'a tensor" where
  "MLP_forward num mlp x =
     (case (shape x, d_hidden mlp) of
        ([b, w], w0 # ws) \<Rightarrow>
          if w = w0 then Inr \<lparr>shape = [b, last (w0 # ws)], elem = num ''mlp'' [x]\<rparr>
          else Inl RuntimeError
      | _ \<Rightarrow> Inl RuntimeError)"

section \<open>AttentiveRNN\<close>

subsection \<open>Constructor arguments and the constructed object\<close>

text \<open>
  \<open>rnn_config\<close> holds the arguments of \<^verbatim>\<open>AttentiveRNN.__init__\<close> that the constructor
  copies to \<^verbatim>\<open>self\<close>; \<^verbatim>\<open>embed_matrix\<close>, which it does not keep, is a separate argument.
  A pretrained embedding matrix is a two-dimensional array: its \<^verbatim>\<open>dtype\<close> and its
  \<^verbatim>\<open>shape[0]\<close> and \<^verbatim>\<open>shape[1]\<close>.
\<close>

record ndarray =
  dtype :: string
  nd_rows :: nat
  nd_cols :: nat

record rnn_config =
  vocab_size :: nat
  rnn_type :: string
  hidden_dim :: nat
  n_layers :: nat
  rnn_dropout :: real
  bidirectional :: bool
  use_hidden_state :: bool
  padding_idx :: int
  embed_dim :: "nat option"
  embed_trainable :: bool
  with_attention :: bool
  attn_concatenate :: bool
  attn_dropout :: real
  head_hidden_dims :: "nat list option"
  head_activation :: string
  head_dropout :: "real option"
  head_batchnorm :: bool
  head_batchnorm_last :: bool
  head_linear_first :: bool

text \<open>The object after construction: the copied arguments and the attributes
  \<^verbatim>\<open>word_embed\<close>, \<^verbatim>\<open>rnn\<close>, \<^verbatim>\<open>attn\<close>, \<^verbatim>\<open>attn_rnn_mlp\<close> and \<^verbatim>\<open>output_dim\<close>. An attribute
  that the constructor sets only on some paths is an option.\<close>

record AttentiveRNN =
  cfg :: rnn_config
  word_embed :: Embedding
  rnn :: "RNN option"
  attn :: "ContextAttention option"
  attn_rnn_mlp :: "MLP option"
  output_dim :: nat

datatype warning = UserWarning string

definition quote :: string where
  "quote = [CHR 0x27]"

text \<open>The three messages of the constructor.\<close>

definition embed_dim_warning :: "nat \<Rightarrow> nat \<Rightarrow> warning" where
  "embed_dim_warning d c =
     UserWarning (''the input embedding dimension '' @ str_nat d @
       '' and the dimension of the pretrained embeddings '' @ str_nat c @
       '' do not match. The pretrained embeddings dimension ('' @ str_nat c @
       '') will be used'')"

definition rnn_type_error :: "string \<Rightarrow> error" where
  "rnn_type_error t =
     ValueError (quote @ ''rnn_type' must be 'lstm' or 'gru', got '' @ t @ '' instead'')"

definition dtype_error :: "string \<Rightarrow> error" where
  "dtype_error t =
     AssertionError (quote @ ''embed_matrix' must be of dtype 'float32', got dtype '' @
       quote @ t @ quote)"

subsection \<open>\<^verbatim>\<open>_set_embeddings\<close>\<close>

text \<open>
  With a matrix: the \<^verbatim>\<open>assert\<close> on the dtype, then an embedding of
  \<^verbatim>\<open>vocab_size\<close> rows and \<^verbatim>\<open>embed_matrix.shape[1]\<close> columns whose weight is replaced
  by the matrix, trainable or not. Without a matrix the \<^verbatim>\<open>else\<close> branch reads the local
  \<^verbatim>\<open>embed_dim\<close>, which only the other branch assigns.
\<close>

definition set_embeddings :: "rnn_config \<Rightarrow> ndarray option \<Rightarrow> error + (Embedding \<times> nat)" where
  "set_embeddings c embed_matrix =
     (case embed_matrix of
        Some M \<Rightarrow>
          if dtype M \<noteq> ''float32'' then Inl (dtype_error (dtype M))
          else Inr (\<lparr>num_embeddings = vocab_size c,
                      embedding_dim = nd_cols M,
                      emb_padding_idx = padding_idx c,
                      weight_shape = [nd_rows M, nd_cols M],
                      weight_requires_grad = embed_trainable c\<rparr>,
                    nd_cols M)
      | None \<Rightarrow> Inl (UnboundLocalError ''embed_dim''))"

subsection \<open>\<^verbatim>\<open>__init__\<close>\<close>

text \<open>The constructor returns the warnings it issued and either the error it raised
  or the object.\<close>

definition embed_dim_check :: "nat option \<Rightarrow> ndarray option \<Rightarrow> warning list" where
  "embed_dim_check ed embed_matrix =
     (case (ed, embed_matrix) of
        (Some d, Some M) \<Rightarrow> if \<not> d = nd_cols M then [embed_dim_warning d (nd_cols M)] else []
      | _ \<Rightarrow> [])"

definition attn_input_dim :: "rnn_config \<Rightarrow> nat" where
  "attn_input_dim c =
     (if bidirectional c \<and> attn_concatenate c then hidden_dim c * 4
      else if bidirectional c \<or> attn_concatenate c then hidden_dim c * 2
      else hidden_dim c)"

definition make_rnn :: "rnn_config \<Rightarrow> nat \<Rightarrow> RNN option" where
  "make_rnn c ed =
     (let params = (\<lambda>k. \<lparr>cell = k, input_size = ed, hidden_size = hidden_dim c,
                          num_layers = n_layers c, rnn_bidirectional = bidirectional c,
                          dropout = rnn_dropout c, batch_first = True\<rparr>)
      in if lower (rnn_type c) = ''lstm'' then Some (params LSTM)
         else if lower (rnn_type c) = ''gru'' then Some (params GRU)
         else None)"

definition AttentiveRNN_init ::
  "rnn_config \<Rightarrow> ndarray option \<Rightarrow> warning list \<times> (error + AttentiveRNN)" where
  "AttentiveRNN_init c embed_matrix =
     (embed_dim_check (embed_dim c) embed_matrix,
      if lower (rnn_type c) \<notin> set [''lstm'', ''gru'']
      then Inl (rnn_type_error (rnn_type c))
      else
        (case set_embeddings c embed_matrix of
           Inl e \<Rightarrow> Inl e
         | Inr (we, ed) \<Rightarrow>
             (let (a, od) =
                    (if with_attention c
                     then (Some \<lparr>ca_input_dim = attn_input_dim c,
                                  ca_dropout = attn_dropout c,
                                  sum_along_seq = True\<rparr>,
                           attn_input_dim c)
                     else (None, if bidirectional c then hidden_dim c * 2 else hidden_dim c));
                  (h, od') =
                    (case head_hidden_dims c of
                       Some hs \<Rightarrow>
                         (Some \<lparr>d_hidden = [od] @ hs,
                                 activation = head_activation c,
                                 mlp_p_dropout = head_dropout c,
                                 batchnorm = head_batchnorm c,
                                 batchnorm_last = head_batchnorm_last c,
                                 linear_first = head_linear_first c\<rparr>,
                          last ([od] @ hs))
                     | None \<Rightarrow> (None, od))
              in Inr \<lparr>cfg = c, word_embed = we, rnn = make_rnn c ed, attn = a,
                      attn_rnn_mlp = h, output_dim = od'\<rparr>)))"

subsection \<open>\<^verbatim>\<open>_process_rnn_outputs\<close>\<close>

text \<open>\<^verbatim>\<open>torch.cat((hidden[-2], hidden[-1]), dim=1)\<close>.\<close>

definition cat_hidden :: "'a tensor \<Rightarrow> error + 'a tensor" where
  "cat_hidden hidden =
     (case index0 hidden (- 2) of
        Inl e \<Rightarrow> Inl e
      | Inr h2 \<Rightarrow>
          (case index0 hidden (- 1) of
             Inl e \<Rightarrow> Inl e
           | Inr h1 \<Rightarrow> torch_cat h2 h1 1))"

text \<open>\<^verbatim>\<open>torch.cat([output, h.unsqueeze(1).expand_as(output)], dim=2)\<close>.\<close>

definition cat_broadcast :: "'a tensor \<Rightarrow> 'a tensor \<Rightarrow> error + 'a tensor" where
  "cat_broadcast output h =
     (case unsqueeze h 1 of
        Inl e \<Rightarrow> Inl e
      | Inr u \<Rightarrow>
          (case expand_as u output of
             Inl e \<Rightarrow> Inl e
           | Inr ex \<Rightarrow> torch_cat output ex 2))"

text \<open>The value of the local \<^verbatim>\<open>attn_inp\<close> when \<^verbatim>\<open>self.attn(attn_inp)\<close> is reached, in
  the branch \<^verbatim>\<open>if self.with_attention\<close>. The \<^verbatim>\<open>else\<close> of the source belongs to
  \<^verbatim>\<open>if self.attn_concatenate\<close>; the inner \<^verbatim>\<open>if self.bidirectional\<close> has none, so with
  \<^verbatim>\<open>attn_concatenate\<close> and without \<^verbatim>\<open>bidirectional\<close> the local is never assigned.\<close>

definition attn_inp :: "AttentiveRNN \<Rightarrow> 'a tensor \<Rightarrow> 'a tensor \<Rightarrow> error + 'a tensor" where
  "attn_inp m output hidden =
     (if attn_concatenate (cfg m)
      then
        (if bidirectional (cfg m)
         then (case cat_hidden hidden of
                 Inl e \<Rightarrow> Inl e
               | Inr bi_hidden \<Rightarrow> cat_broadcast output bi_hidden)
         else Inl (UnboundLocalError ''attn_inp''))
      else
        (case index0 hidden (- 1) of
           Inl e \<Rightarrow> Inl e
         | Inr h1 \<Rightarrow> cat_broadcast output h1))"

definition process_rnn_outputs ::
  "'a numerics \<Rightarrow> AttentiveRNN \<Rightarrow> 'a tensor \<Rightarrow> 'a tensor \<Rightarrow> error + 'a tensor" where
  "process_rnn_outputs num m output hidden =
     (if with_attention (cfg m)
      then
        (case attn_inp m output hidden of
           Inl e \<Rightarrow> Inl e
         | Inr a \<Rightarrow>
             (case attn m of
                None \<Rightarrow> Inl (AttributeError ''attn'')
              | Some ca \<Rightarrow> ContextAttention_forward num ca a))
      else
        (case permute_102 output of
           Inl e \<Rightarrow> Inl e
         | Inr output' \<Rightarrow>
             if bidirectional (cfg m)
             then (if use_hidden_state (cfg m) then cat_hidden hidden else index0 output' (- 1))
             else (if use_hidden_state (cfg m) then index0 hidden (- 1)
                   else index0 output' (- 1))))"

subsection \<open>\<^verbatim>\<open>forward\<close>\<close>

text \<open>The locals \<^verbatim>\<open>o\<close> (here \<open>out\<close>) and \<^verbatim>\<open>h\<close> are assigned in the \<^verbatim>\<open>lstm\<close> and in
  the \<^verbatim>\<open>gru\<close> branch only.\<close>

definition AttentiveRNN_forward ::
  "'a numerics \<Rightarrow> AttentiveRNN \<Rightarrow> 'a tensor \<Rightarrow> error + 'a tensor" where
  "AttentiveRNN_forward num m X =
     (case Embedding_forward num (word_embed m) X of
        Inl e \<Rightarrow> Inl e
      | Inr embedded \<Rightarrow>
          if lower (rnn_type (cfg m)) = ''lstm'' \<or> lower (rnn_type (cfg m)) = ''gru''
          then
            (case rnn m of
               None \<Rightarrow> Inl (AttributeError ''rnn'')
             | Some r \<Rightarrow>
                 (case RNN_forward num r embedded of
                    Inl e \<Rightarrow> Inl e
                  | Inr (out, h) \<Rightarrow>
                      (case process_rnn_outputs num m out h of
                         Inl e \<Rightarrow> Inl e
                       | Inr processed_outputs \<Rightarrow>
                           if head_hidden_dims (cfg m) \<noteq> None
                           then (case attn_rnn_mlp m of
                                   None \<Rightarrow> Inl (AttributeError ''attn_rnn_mlp'')
                                 | Some mlp \<Rightarrow> MLP_forward num mlp processed_outputs)
                           else Inr processed_outputs)))
          else Inl (UnboundLocalError ''o''))"

section \<open>SAINT\<close>

subsection \<open>Constructor arguments\<close>

text \<open>The arguments of \<^verbatim>\<open>SAINT.__init__\<close>, all of which the constructor copies to
  \<^verbatim>\<open>self\<close>. \<^verbatim>\<open>attn_dropout\<close> is named \<open>saint_attn_dropout\<close> here, apart from the
  argument of the same name of \<^verbatim>\<open>AttentiveRNN\<close>.\<close>

record saint_config =
  column_idx :: "string \<rightharpoonup> nat"
  cat_embed_input :: "(string \<times> nat) list option"
  cat_embed_dropout :: real
  full_embed_dropout :: bool
  shared_embed :: bool
  add_shared_embed :: bool
  frac_shared_embed :: real
  continuous_cols :: "string list option"
  embed_continuous_activation :: "string option"
  cont_embed_dropout :: real
  cont_embed_activation :: "string option"
  cont_norm_layer :: "string option"
  input_dim :: nat
  use_bias :: bool
  n_heads :: nat
  n_blocks :: int
  saint_attn_dropout :: real
  ff_dropout :: real
  transformer_activation :: string
  mlp_hidden_dims :: "nat list option"
  mlp_activation :: string
  mlp_dropout :: real
  mlp_batchnorm :: bool
  mlp_batchnorm_last :: bool
  mlp_linear_first :: bool

subsection \<open>The embedding composer\<close>

text \<open>The fifteen positional arguments of the call
  \<^verbatim>\<open>SameSizeCatAndContEmbeddings(...)\<close> in the constructor, in their order.\<close>

record SameSizeCatAndContEmbeddings =
  e_embed_dim :: nat
  e_column_idx :: "string \<rightharpoonup> nat"
  e_cat_embed_input :: "(string \<times> nat) list option"
  e_cat_embed_dropout :: real
  e_full_embed_dropout :: bool
  e_shared_embed :: bool
  e_add_shared_embed :: bool
  e_frac_shared_embed :: real
  e_use_embed_bias :: bool
  e_continuous_cols :: "string list option"
  e_embed_continuous :: bool
  e_cont_embed_dropout :: real
  e_cont_embed_activation :: "string option"
  e_use_cont_bias :: bool
  e_cont_norm_layer :: "string option"

text \<open>Modelled from the spec: \<^verbatim>\<open>SameSizeCatAndContEmbeddings\<close> (module
  \<^verbatim>\<open>models/embeddings_layers.py\<close>) is not among the source files. Sections 3 and 6 of
  the specification: given the raw tabular input it returns two optional tensors, the
  categorical token sequence and the continuous token sequence, with one slot per
  categorical or continuous column, each a vector of the model dimension. A sequence is
  present exactly when its list of columns was given to the constructor.\<close>

definition SameSizeCatAndContEmbeddings_forward ::
  "'a numerics \<Rightarrow> SameSizeCatAndContEmbeddings \<Rightarrow> 'a tensor \<Rightarrow>
     error + ('a tensor option \<times> 'a tensor option)" where
  "SameSizeCatAndContEmbeddings_forward num e X =
     (case shape X of
        [b, n] \<Rightarrow>
          Inr (map_option (\<lambda>cols. \<lparr>shape = [b, length cols, e_embed_dim e],
                                     elem = num ''cat_embed'' [X]\<rparr>) (e_cat_embed_input e),
               map_option (\<lambda>cols. \<lparr>shape = [b, length cols, e_embed_dim e],
                                     elem = num ''cont_embed'' [X]\<rparr>) (e_continuous_cols e))
      | _ \<Rightarrow> Inl RuntimeError)"

subsection \<open>The transformer blocks\<close>

text \<open>A block is the record of the seven arguments of the call \<^verbatim>\<open>SaintEncoder(...)\<close> and
  of the two attributes the property \<^verbatim>\<open>attention_weights\<close> reads,
  \<^verbatim>\<open>col_attn.attn_weights\<close> and \<^verbatim>\<open>row_attn.attn_weights\<close>, which are set by a forward
  call.\<close>

record 'a SaintEncoder =
  enc_input_dim :: nat
  enc_n_heads :: nat
  enc_use_bias :: bool
  enc_attn_dropout :: real
  enc_ff_dropout :: real
  enc_activation :: string
  enc_n_feat :: nat
  col_attn_weights :: "'a tensor option"
  row_attn_weights :: "'a tensor option"

text \<open>Modelled from the spec: \<^verbatim>\<open>SaintEncoder\<close> (module
  \<^verbatim>\<open>models/tabular/transformers/_encoders.py\<close>) is not among the source files. Sections
  3 and 4.1 of the specification: a block takes the feature-token sequence (batch,
  features, model dimension) and returns a sequence of the same shape; each forward
  pass recomputes its two weight tensors, column attention of shape (batch, heads,
  features, features) and row attention of shape (1, heads, batch, batch). The block
  is built for a number of features and a model dimension and accepts no other.\<close>

definition SaintEncoder_forward ::
  "'a numerics \<Rightarrow> string \<Rightarrow> 'a SaintEncoder \<Rightarrow> 'a tensor \<Rightarrow>
     error + ('a SaintEncoder \<times> 'a tensor)" where
  "SaintEncoder_forward num name blk x =
     (case shape x of
        [b, n, d] \<Rightarrow>
          if d = enc_input_dim blk \<and> n = enc_n_feat blk
          then Inr (blk\<lparr>col_attn_weights :=
                          Some \<lparr>shape = [b, enc_n_heads blk, n, n],
                                 elem = num (name @ ''.col_attn'') [x]\<rparr>,
                        row_attn_weights :=
                          Some \<lparr>shape = [1, enc_n_heads blk, b, b],
                                 elem = num (name @ ''.row_attn'') [x]\<rparr>\<rparr>,
                    \<lparr>shape = [b, n, d], elem = num name [x]\<rparr>)
          else Inl RuntimeError
      | _ \<Rightarrow> Inl RuntimeError)"

text \<open>\<^verbatim>\<open>nn.Sequential\<close>: the modules by name, in the order of their registration.
  \<^verbatim>\<open>add_module\<close> with a name that is already registered replaces that module in its
  place. The forward call runs the modules in order.\<close>

type_synonym 'a Sequential = "(string \<times> 'a SaintEncoder) list"

definition add_module :: "string \<Rightarrow> 'a SaintEncoder \<Rightarrow> 'a Sequential \<Rightarrow> 'a Sequential" where
  "add_module name blk seq =
     (if name \<in> set (map fst seq)
      then map (\<lambda>(k, v). if k = name then (k, blk) else (k, v)) seq
      else seq @ [(name, blk)])"

fun Sequential_forward ::
  "'a numerics \<Rightarrow> 'a Sequential \<Rightarrow> 'a tensor \<Rightarrow> error + ('a Sequential \<times> 'a tensor)" where
  "Sequential_forward num [] x = Inr ([], x)"
| "Sequential_forward num ((name, blk) # rest) x =
     (case SaintEncoder_forward num name blk x of
        Inl e \<Rightarrow> Inl e
      | Inr (blk', y) \<Rightarrow>
          (case Sequential_forward num rest y of
             Inl e \<Rightarrow> Inl e
           | Inr (rest', z) \<Rightarrow> Inr ((name, blk') # rest', z)))"

subsection \<open>\<^verbatim>\<open>__init__\<close>\<close>

record 'a SAINT =
  scfg :: saint_config
  with_cls_token :: bool
  n_cat :: nat
  n_cont :: nat
  n_feats :: nat
  cat_and_cont_embed :: SameSizeCatAndContEmbeddings
  transformer_blks :: "'a Sequential"
  transformer_mlp :: MLP
  saint_output_dim :: nat

text \<open>The loop \<^verbatim>\<open>for i in range(n_blocks)\<close> registers one block per index under the
  name \<^verbatim>\<open>"saint_block" + str(i)\<close>.\<close>

definition new_block :: "saint_config \<Rightarrow> nat \<Rightarrow> 'a SaintEncoder" where
  "new_block c nf =
     \<lparr>enc_input_dim = input_dim c, enc_n_heads = n_heads c, enc_use_bias = use_bias c,
      enc_attn_dropout = saint_attn_dropout c, enc_ff_dropout = ff_dropout c,
      enc_activation = transformer_activation c, enc_n_feat = nf,
      col_attn_weights = None, row_attn_weights = None\<rparr>"

definition make_blocks :: "saint_config \<Rightarrow> nat \<Rightarrow> 'a Sequential" where
  "make_blocks c nf =
     fold (\<lambda>i seq. add_module (''saint_block'' @ str_nat i) (new_block c nf) seq)
       [0..<nat (n_blocks c)] []"

text \<open>\<^verbatim>\<open>if not mlp_hidden_dims\<close> holds for \<^verbatim>\<open>None\<close> and for the empty list.\<close>

definition saint_mlp_dims :: "nat \<Rightarrow> nat list option \<Rightarrow> nat list" where
  "saint_mlp_dims attn_output_dim hs =
     (case hs of
        None \<Rightarrow> [attn_output_dim, attn_output_dim * 4, attn_output_dim * 2]
      | Some [] \<Rightarrow> [attn_output_dim, attn_output_dim * 4, attn_output_dim * 2]
      | Some (h # hs') \<Rightarrow> [attn_output_dim] @ (h # hs'))"

text \<open>\<^verbatim>\<open>len(l) if l is not None else 0\<close>.\<close>

definition count_cols :: "'b list option \<Rightarrow> nat" where
  "count_cols l = (case l of Some xs \<Rightarrow> length xs | None \<Rightarrow> 0)"

definition SAINT_init :: "saint_config \<Rightarrow> 'a SAINT" where
  "SAINT_init c =
     (let cls = (column_idx c ''cls_token'' \<noteq> None);
          ncat = count_cols (cat_embed_input c);
          ncont = count_cols (continuous_cols c);
          nf = ncat + ncont;
          attn_output_dim = (if cls then input_dim c else nf * input_dim c);
          dims = saint_mlp_dims attn_output_dim (mlp_hidden_dims c)
      in \<lparr>scfg = c,
          with_cls_token = cls,
          n_cat = ncat,
          n_cont = ncont,
          n_feats = nf,
          cat_and_cont_embed =
            \<lparr>e_embed_dim = input_dim c, e_column_idx = column_idx c,
             e_cat_embed_input = cat_embed_input c,
             e_cat_embed_dropout = cat_embed_dropout c,
             e_full_embed_dropout = full_embed_dropout c,
             e_shared_embed = shared_embed c,
             e_add_shared_embed = add_shared_embed c,
             e_frac_shared_embed = frac_shared_embed c,
             e_use_embed_bias = False,
             e_continuous_cols = continuous_cols c,
             e_embed_continuous = True,
             e_cont_embed_dropout = cont_embed_dropout c,
             e_cont_embed_activation = embed_continuous_activation c,
             e_use_cont_bias = True,
             e_cont_norm_layer = cont_norm_layer c\<rparr>,
          transformer_blks = make_blocks c nf,
          transformer_mlp =
            \<lparr>d_hidden = dims, activation = mlp_activation c,
             mlp_p_dropout = Some (mlp_dropout c), batchnorm = mlp_batchnorm c,
             batchnorm_last = mlp_batchnorm_last c, linear_first = mlp_linear_first c\<rparr>,
          saint_output_dim = last dims\<rparr>)"

subsection \<open>\<^verbatim>\<open>forward\<close>\<close>

text \<open>The local \<^verbatim>\<open>x\<close> when \<^verbatim>\<open>self.transformer_blks(x)\<close> is reached: it is assigned
  under \<^verbatim>\<open>if x_cat is not None\<close> and under \<^verbatim>\<open>if x_cont is not None\<close> only.\<close>

definition assemble_tokens :: "'a tensor option \<Rightarrow> 'a tensor option \<Rightarrow> error + 'a tensor" where
  "assemble_tokens x_cat x_cont =
     (case x_cont of
        Some xc \<Rightarrow>
          (case x_cat of
             Some x \<Rightarrow> torch_cat x xc 1
           | None \<Rightarrow> Inr xc)
      | None \<Rightarrow>
          (case x_cat of
             Some x \<Rightarrow> Inr x
           | None \<Rightarrow> Inl (UnboundLocalError ''x'')))"

definition feature_tokens :: "'a numerics \<Rightarrow> 'a SAINT \<Rightarrow> 'a tensor \<Rightarrow> error + 'a tensor" where
  "feature_tokens num m X =
     (case SameSizeCatAndContEmbeddings_forward num (cat_and_cont_embed m) X of
        Inl e \<Rightarrow> Inl e
      | Inr (x_cat, x_cont) \<Rightarrow> assemble_tokens x_cat x_cont)"

text \<open>The reduction after the blocks: \<^verbatim>\<open>x[:, 0, :]\<close> with a \<^verbatim>\<open>cls_token\<close> column,
  \<^verbatim>\<open>x.flatten(1)\<close> without.\<close>

definition reduce_tokens :: "'a SAINT \<Rightarrow> 'a tensor \<Rightarrow> error + 'a tensor" where
  "reduce_tokens m x = (if with_cls_token m then select_mid x 0 else flatten1 x)"

text \<open>\<^verbatim>\<open>forward\<close> returns its result and leaves the attention weights in the blocks:
  the model returns the object with the new blocks beside the result.\<close>

definition SAINT_forward ::
  "'a numerics \<Rightarrow> 'a SAINT \<Rightarrow> 'a tensor \<Rightarrow> error + ('a SAINT \<times> 'a tensor)" where
  "SAINT_forward num m X =
     (case feature_tokens num m X of
        Inl e \<Rightarrow> Inl e
      | Inr x \<Rightarrow>
          (case Sequential_forward num (transformer_blks m) x of
             Inl e \<Rightarrow> Inl e
           | Inr (blks, y) \<Rightarrow>
               (case reduce_tokens m y of
                  Inl e \<Rightarrow> Inl e
                | Inr z \<Rightarrow>
                    (case MLP_forward num (transformer_mlp m) z of
                       Inl e \<Rightarrow> Inl e
                     | Inr r \<Rightarrow> Inr (m\<lparr>transformer_blks := blks\<rparr>, r)))))"

subsection \<open>\<^verbatim>\<open>attention_weights\<close>\<close>

text \<open>One pair per block, in order; reading the weights of a block that has not run
  raises \<^verbatim>\<open>AttributeError\<close>.\<close>

fun block_weights :: "'a Sequential \<Rightarrow> error + ('a tensor \<times> 'a tensor) list" where
  "block_weights [] = Inr []"
| "block_weights ((name, blk) # rest) =
     (case (col_attn_weights blk, row_attn_weights blk) of
        (Some cw, Some rw) \<Rightarrow>
          (case block_weights rest of
             Inl e \<Rightarrow> Inl e
           | Inr ws \<Rightarrow> Inr ((cw, rw) # ws))
      | _ \<Rightarrow> Inl (AttributeError ''attn_weights''))"

definition attention_weights :: "'a SAINT \<Rightarrow> error + ('a tensor \<times> 'a tensor) list" where
  "attention_weights m = block_weights (transformer_blks m)"

subsection \<open>Models after forward calls\<close>

text \<open>A forward call changes nothing of a model but the attention weights kept in its
  blocks. \<open>forget_weights\<close> removes them.\<close>

definition forget_block :: "'a SaintEncoder \<Rightarrow> 'a SaintEncoder" where
  "forget_block b = b\<lparr>col_attn_weights := None, row_attn_weights := None\<rparr>"

definition forget_weights :: "'a SAINT \<Rightarrow> 'a SAINT" where
  "forget_weights m =
     m\<lparr>transformer_blks := map (\<lambda>(name, b). (name, forget_block b)) (transformer_blks m)\<rparr>"

section \<open>Example objects\<close>

text \<open>A configuration after the example of the class documentation (vocabulary of 4
  words, hidden size 4, one layer), with a pretrained matrix of 4 vectors of width 4,
  and a batch of 5 sequences of 5 token ids.\<close>

definition example_matrix :: ndarray where
  "example_matrix = \<lparr>dtype = ''float32'', nd_rows = 4, nd_cols = 4\<rparr>"

definition example_config :: rnn_config where
  "example_config =
     \<lparr>vocab_size = 4, rnn_type = ''lstm'', hidden_dim = 4, n_layers = 1, rnn_dropout = 0.1,
      bidirectional = False, use_hidden_state = True, padding_idx = 0, embed_dim = Some 4,
      embed_trainable = True, with_attention = False, attn_concatenate = True,
      attn_dropout = 0.1, head_hidden_dims = None, head_activation = ''relu'',
      head_dropout = None, head_batchnorm = False, head_batchnorm_last = False,
      head_linear_first = False\<rparr>"

definition example_X :: "int tensor" where
  "example_X = \<lparr>shape = [5, 5], elem = (\<lambda>idx. 0)\<rparr>"

definition example_num :: "int numerics" where
  "example_num = (\<lambda>name inputs idx. 0)"

definition example_model :: AttentiveRNN where
  "example_model =
     \<lparr>cfg = example_config,
      word_embed = \<lparr>num_embeddings = 4, embedding_dim = 4, emb_padding_idx = 0,
                     weight_shape = [4, 4], weight_requires_grad = True\<rparr>,
      rnn = Some \<lparr>cell = LSTM, input_size = 4, hidden_size = 4, num_layers = 1,
                   rnn_bidirectional = False, dropout = 0.1, batch_first = True\<rparr>,
      attn = None, attn_rnn_mlp = None, output_dim = 4\<rparr>"

text \<open>Outputs of the recurrent layer for that batch (hidden size 4): an output sequence
  and a final hidden state, unidirectional and bidirectional, with elements that tell
  the positions apart.\<close>

definition example_output :: "int tensor" where
  "example_output =
     \<lparr>shape = [5, 5, 4], elem = (\<lambda>idx. int (idx ! 0) * 100 + int (idx ! 1) * 10 + int (idx ! 2))\<rparr>"

definition example_hidden :: "int tensor" where
  "example_hidden =
     \<lparr>shape = [1, 5, 4], elem = (\<lambda>idx. - (int (idx ! 0) * 100 + int (idx ! 1) * 10 + int (idx ! 2)) - 1)\<rparr>"

definition example_output_bi :: "int tensor" where
  "example_output_bi = example_output\<lparr>shape := [5, 5, 8]\<rparr>"

definition example_hidden_bi :: "int tensor" where
  "example_hidden_bi = example_hidden\<lparr>shape := [2, 5, 4]\<rparr>"

text \<open>The example configuration with attention enabled, for each value of
  \<^verbatim>\<open>bidirectional\<close> and \<^verbatim>\<open>attn_concatenate\<close>, and the object the constructor returns for
  it.\<close>

definition attention_config :: "bool \<Rightarrow> bool \<Rightarrow> rnn_config" where
  "attention_config bi conc =
     example_config\<lparr>with_attention := True, bidirectional := bi, attn_concatenate := conc\<rparr>"

definition attention_model :: "bool \<Rightarrow> bool \<Rightarrow> AttentiveRNN" where
  "attention_model bi conc =
     projr (snd (AttentiveRNN_init (attention_config bi conc) (Some example_matrix)))"

text \<open>The scenario of the specification for SAINT: 4 categorical columns of 4
  categories each and 1 continuous column, model dimension 32, 2 blocks, 8 heads, no
  summary token; the same with a summary token as first categorical column; the same
  without any column; and a token sequence with elements that tell the positions apart.\<close>

definition example_saint_config :: saint_config where
  "example_saint_config =
     \<lparr>column_idx = map_of [(''a'', 0), (''b'', 1), (''c'', 2), (''d'', 3), (''e'', 4)],
      cat_embed_input = Some [(''a'', 4), (''b'', 4), (''c'', 4), (''d'', 4)],
      cat_embed_dropout = 0.1, full_embed_dropout = False, shared_embed = False,
      add_shared_embed = False, frac_shared_embed = 0.25,
      continuous_cols = Some [''e''], embed_continuous_activation = None,
      cont_embed_dropout = 0, cont_embed_activation = None, cont_norm_layer = None,
      input_dim = 32, use_bias = False, n_heads = 8, n_blocks = 2,
      saint_attn_dropout = 0.1, ff_dropout = 0.2, transformer_activation = ''gelu'',
      mlp_hidden_dims = None, mlp_activation = ''relu'', mlp_dropout = 0.1,
      mlp_batchnorm = False, mlp_batchnorm_last = False, mlp_linear_first = True\<rparr>"

definition example_saint :: "int SAINT" where
  "example_saint = SAINT_init example_saint_config"

definition example_cls_config :: saint_config where
  "example_cls_config =
     example_saint_config
       \<lparr>column_idx := map_of [(''cls_token'', 0), (''a'', 1), (''b'', 2), (''c'', 3),
                              (''d'', 4), (''e'', 5)],
        cat_embed_input := Some [(''cls_token'', 1), (''a'', 4), (''b'', 4), (''c'', 4), (''d'', 4)]\<rparr>"

definition example_cls_saint :: "int SAINT" where
  "example_cls_saint = SAINT_init example_cls_config"

definition example_empty_config :: saint_config where
  "example_empty_config = example_saint_config\<lparr>cat_embed_input := None, continuous_cols := None\<rparr>"


section \<open>Properties of AttentiveRNN\<close>

subsection \<open>Which errors the operations raise\<close>

lemma index0_error: "index0 x i = Inl e \<Longrightarrow> e = IndexError"
  by (auto simp: index0_def py_index_def Let_def split: list.splits if_splits sum.splits)

lemma torch_cat_error: "torch_cat x y k = Inl e \<Longrightarrow> e = RuntimeError"
  by (auto simp: torch_cat_def Let_def split: if_splits)

lemma unsqueeze_error: "unsqueeze x k = Inl e \<Longrightarrow> e = IndexError"
  by (auto simp: unsqueeze_def split: if_splits)

lemma expand_as_error: "expand_as x y = Inl e \<Longrightarrow> e = RuntimeError"
  by (auto simp: expand_as_def Let_def split: if_splits)

lemma permute_102_error: "permute_102 x = Inl e \<Longrightarrow> e = RuntimeError"
  by (auto simp: permute_102_def split: list.splits)

lemma cat_hidden_error: "cat_hidden h = Inl e \<Longrightarrow> e = IndexError \<or> e = RuntimeError"
  by (auto simp: cat_hidden_def split: sum.splits dest: index0_error torch_cat_error)

lemma cat_broadcast_error: "cat_broadcast out h = Inl e \<Longrightarrow> e = IndexError \<or> e = RuntimeError"
  by (auto simp: cat_broadcast_def split: sum.splits dest: unsqueeze_error expand_as_error torch_cat_error)

lemma attn_inp_error:
  "attn_inp m out h = Inl e \<Longrightarrow> e = IndexError \<or> e = RuntimeError \<or> e = UnboundLocalError ''attn_inp''"
  by (auto simp: attn_inp_def split: sum.splits if_splits dest: cat_hidden_error cat_broadcast_error index0_error)

lemma ContextAttention_forward_error: "ContextAttention_forward num ca x = Inl e \<Longrightarrow> e = RuntimeError"
  by (auto simp: ContextAttention_forward_def split: list.splits if_splits)

lemma MLP_forward_error: "MLP_forward num mlp x = Inl e \<Longrightarrow> e = RuntimeError"
  by (auto simp: MLP_forward_def split: list.splits if_splits)

lemma RNN_forward_error: "RNN_forward num r x = Inl e \<Longrightarrow> e = RuntimeError"
  by (auto simp: RNN_forward_def split: list.splits if_splits)

lemma Embedding_forward_error: "Embedding_forward num emb x = Inl e \<Longrightarrow> e = RuntimeError"
  by (auto simp: Embedding_forward_def split: list.splits if_splits)

lemma process_rnn_outputs_error:
  "process_rnn_outputs num m out h = Inl e \<Longrightarrow>
     e = IndexError \<or> e = RuntimeError \<or> e = UnboundLocalError ''attn_inp'' \<or> e = AttributeError ''attn''"
  by (auto simp: process_rnn_outputs_def split: sum.splits if_splits option.splits
      dest: attn_inp_error ContextAttention_forward_error permute_102_error cat_hidden_error index0_error)

lemma init_Inr_rnn_type:
  "snd (AttentiveRNN_init c em) = Inr m \<Longrightarrow>
     cfg m = c \<and> (lower (rnn_type c) = ''lstm'' \<or> lower (rnn_type c) = ''gru'') \<and> rnn m \<noteq> None"
  by (auto simp: AttentiveRNN_init_def make_rnn_def Let_def split: if_splits sum.splits prod.splits option.splits)

lemma lower_examples: "lower ''LSTM'' = ''lstm''" "lower ''rnn'' = ''rnn''" "lower ''Gru'' = ''gru''" "lower ''lstm'' = ''lstm''"
  by code_simp+

subsection \<open>Validation of the recurrent cell type\<close>

text \<open>
  Claim C3. For every \<^verbatim>\<open>rnn_type\<close> whose lower-case form is neither \<^verbatim>\<open>lstm\<close> nor
  \<^verbatim>\<open>gru\<close>, and whatever the other arguments are, the constructor raises the
  \<^verbatim>\<open>ValueError\<close> that names the parameter, the two supported values and the value it
  got. Conversely every object the constructor returns has a supported \<^verbatim>\<open>rnn_type\<close>
  and its \<^verbatim>\<open>rnn\<close> attribute set, so that \<^verbatim>\<open>forward\<close> always takes the \<^verbatim>\<open>lstm\<close> or the
  \<^verbatim>\<open>gru\<close> branch: it never fails on the unassigned locals \<^verbatim>\<open>o\<close>, \<^verbatim>\<open>h\<close> or on a
  missing \<^verbatim>\<open>rnn\<close> attribute.
\<close>

theorem C3_unsupported_rnn_type:
  "(lower (rnn_type c) \<noteq> ''lstm'' \<and> lower (rnn_type c) \<noteq> ''gru'' \<longrightarrow>
      snd (AttentiveRNN_init c em) = Inl (rnn_type_error (rnn_type c))) \<and>
   (\<forall>m. snd (AttentiveRNN_init c em) = Inr m \<longrightarrow>
      (lower (rnn_type (cfg m)) = ''lstm'' \<or> lower (rnn_type (cfg m)) = ''gru'') \<and>
      rnn m \<noteq> None \<and>
      (\<forall>(num :: 'a numerics) X.
         AttentiveRNN_forward num m X \<noteq> Inl (UnboundLocalError ''o'') \<and>
         AttentiveRNN_forward num m X \<noteq> Inl (AttributeError ''rnn'')))"
proof (intro conjI impI allI)
  assume "lower (rnn_type c) \<noteq> ''lstm'' \<and> lower (rnn_type c) \<noteq> ''gru''"
  then show "snd (AttentiveRNN_init c em) = Inl (rnn_type_error (rnn_type c))"
    by (simp add: AttentiveRNN_init_def)
next
  fix m assume "snd (AttentiveRNN_init c em) = Inr m"
  from init_Inr_rnn_type [OF this]
  show "lower (rnn_type (cfg m)) = ''lstm'' \<or> lower (rnn_type (cfg m)) = ''gru''" by simp
next
  fix m assume "snd (AttentiveRNN_init c em) = Inr m"
  from init_Inr_rnn_type [OF this] show "rnn m \<noteq> None" by simp
next
  fix m and num :: "'a numerics" and X
  assume "snd (AttentiveRNN_init c em) = Inr m"
  from init_Inr_rnn_type [OF this]
  have t: "lower (rnn_type (cfg m)) = ''lstm'' \<or> lower (rnn_type (cfg m)) = ''gru''"
    and r: "rnn m \<noteq> None" by simp_all
  show "AttentiveRNN_forward num m X \<noteq> Inl (UnboundLocalError ''o'')"
  proof
    assume "AttentiveRNN_forward num m X = Inl (UnboundLocalError ''o'')"
    with t r show False
      by (auto simp: AttentiveRNN_forward_def split: sum.splits option.splits if_splits prod.splits
          dest: Embedding_forward_error RNN_forward_error process_rnn_outputs_error MLP_forward_error)
  qed
  show "AttentiveRNN_forward num m X \<noteq> Inl (AttributeError ''rnn'')"
  proof
    assume "AttentiveRNN_forward num m X = Inl (AttributeError ''rnn'')"
    with t r show False
      by (auto simp: AttentiveRNN_forward_def split: sum.splits option.splits if_splits prod.splits
          dest: Embedding_forward_error RNN_forward_error process_rnn_outputs_error MLP_forward_error)
  qed
qed

lemma example_init: "snd (AttentiveRNN_init example_config (Some example_matrix)) = Inr example_model"
  by (simp add: AttentiveRNN_init_def example_config_def example_matrix_def example_model_def
      set_embeddings_def make_rnn_def lower_examples)

theorem C3_witness:
  "lower (rnn_type (example_config\<lparr>rnn_type := ''rnn''\<rparr>)) \<noteq> ''lstm'' \<and>
   lower (rnn_type (example_config\<lparr>rnn_type := ''rnn''\<rparr>)) \<noteq> ''gru'' \<and>
   snd (AttentiveRNN_init (example_config\<lparr>rnn_type := ''rnn''\<rparr>) (Some example_matrix)) =
     Inl (rnn_type_error ''rnn'') \<and>
   snd (AttentiveRNN_init example_config (Some example_matrix)) = Inr example_model \<and>
   rnn example_model \<noteq> None \<and>
   AttentiveRNN_forward example_num example_model example_X \<noteq> Inl (UnboundLocalError ''o'')"
proof -
  have a: "lower (rnn_type (example_config\<lparr>rnn_type := ''rnn''\<rparr>)) \<noteq> ''lstm'' \<and>
           lower (rnn_type (example_config\<lparr>rnn_type := ''rnn''\<rparr>)) \<noteq> ''gru''"
    by (simp add: lower_examples)
  from a C3_unsupported_rnn_type [where ?'a = int, of "example_config\<lparr>rnn_type := ''rnn''\<rparr>" "Some example_matrix"]
  have b: "snd (AttentiveRNN_init (example_config\<lparr>rnn_type := ''rnn''\<rparr>) (Some example_matrix)) =
     Inl (rnn_type_error ''rnn'')"
    by simp
  from example_init C3_unsupported_rnn_type [where ?'a = int, of example_config "Some example_matrix"]
  have c: "rnn example_model \<noteq> None \<and>
           AttentiveRNN_forward example_num example_model example_X \<noteq> Inl (UnboundLocalError ''o'')"
    by blast
  from a b c example_init show ?thesis by blast
qed

subsection \<open>Pretrained embeddings\<close>







subsection \<open>Output selection without attention\<close>

lemma index0_last:
  "shape x = n # ds \<Longrightarrow> int k \<le> int n \<Longrightarrow> 0 < k \<Longrightarrow>
     index0 x (- int k) = Inr \<lparr>shape = ds, elem = (\<lambda>idx. elem x ((n - k) # idx))\<rparr>"
  by (simp add: index0_def py_index_def Let_def nat_diff_distrib' of_nat_diff)

lemma cat_hidden_ok:
  assumes "shape hidden = [L, B, H]" and "2 \<le> L"
  shows "cat_hidden hidden =
     Inr \<lparr>shape = [B, H + H],
          elem = (\<lambda>idx. if idx ! 1 < H then elem hidden ((L - 2) # idx)
                         else elem hidden ((L - 1) # idx[1 := idx ! 1 - H]))\<rparr>"
proof -
  have a: "index0 hidden (- 2) = Inr \<lparr>shape = [B, H], elem = (\<lambda>idx. elem hidden ((L - 2) # idx))\<rparr>"
    using index0_last [of hidden L "[B, H]" 2] assms by simp
  have b: "index0 hidden (- 1) = Inr \<lparr>shape = [B, H], elem = (\<lambda>idx. elem hidden ((L - 1) # idx))\<rparr>"
    using index0_last [of hidden L "[B, H]" 1] assms by simp
  show ?thesis by (simp add: cat_hidden_def a b torch_cat_def Let_def cong: if_cong)
qed

text \<open>
  Claim C6. With \<^verbatim>\<open>with_attention\<close> disabled, for an output sequence of shape (B, T, D)
  and a final hidden state of shape (L, B, H), \<^verbatim>\<open>_process_rnn_outputs\<close> returns:
  with \<^verbatim>\<open>use_hidden_state\<close> and \<^verbatim>\<open>bidirectional\<close> (so that L is at least 2), for every
  sample the last-but-one row of the hidden state followed by its last row, the final
  states of the two directions of the last layer; with \<^verbatim>\<open>use_hidden_state\<close> and a
  single direction, the last row of the hidden state; without \<^verbatim>\<open>use_hidden_state\<close>,
  for every sample the vector of the last timestep T - 1 of the output sequence.
\<close>

theorem C6_output_selection_without_attention:
  assumes "\<not> with_attention (cfg m)"
    and "shape output = [B, T, D]" and "shape hidden = [L, B, H]"
  shows
   "(use_hidden_state (cfg m) \<and> bidirectional (cfg m) \<and> 2 \<le> L \<longrightarrow>
       (\<exists>r. process_rnn_outputs num m output hidden = Inr r \<and> shape r = [B, H + H] \<and>
            (\<forall>b j. j < H \<longrightarrow> elem r [b, j] = elem hidden [L - 2, b, j]) \<and>
            (\<forall>b j. H \<le> j \<longrightarrow> elem r [b, j] = elem hidden [L - 1, b, j - H]))) \<and>
    (use_hidden_state (cfg m) \<and> \<not> bidirectional (cfg m) \<and> 1 \<le> L \<longrightarrow>
       (\<exists>r. process_rnn_outputs num m output hidden = Inr r \<and> shape r = [B, H] \<and>
            (\<forall>b j. elem r [b, j] = elem hidden [L - 1, b, j]))) \<and>
    (\<not> use_hidden_state (cfg m) \<and> 1 \<le> T \<longrightarrow>
       (\<exists>r. process_rnn_outputs num m output hidden = Inr r \<and> shape r = [B, D] \<and>
            (\<forall>b j. elem r [b, j] = elem output [b, T - 1, j])))"
proof (intro conjI impI)
  assume h: "use_hidden_state (cfg m) \<and> bidirectional (cfg m) \<and> 2 \<le> L"
  with assms cat_hidden_ok [of hidden L B H]
  show "\<exists>r. process_rnn_outputs num m output hidden = Inr r \<and> shape r = [B, H + H] \<and>
            (\<forall>b j. j < H \<longrightarrow> elem r [b, j] = elem hidden [L - 2, b, j]) \<and>
            (\<forall>b j. H \<le> j \<longrightarrow> elem r [b, j] = elem hidden [L - 1, b, j - H])"
    by (simp add: process_rnn_outputs_def permute_102_def)
next
  assume h: "use_hidden_state (cfg m) \<and> \<not> bidirectional (cfg m) \<and> 1 \<le> L"
  with assms index0_last [of hidden L "[B, H]" 1]
  show "\<exists>r. process_rnn_outputs num m output hidden = Inr r \<and> shape r = [B, H] \<and>
            (\<forall>b j. elem r [b, j] = elem hidden [L - 1, b, j])"
    by (simp add: process_rnn_outputs_def permute_102_def)
next
  assume h: "\<not> use_hidden_state (cfg m) \<and> 1 \<le> T"
  let ?p = "\<lparr>shape = [T, B, D], elem = (\<lambda>idx. elem output [idx ! 1, idx ! 0, idx ! 2])\<rparr>"
  have p: "permute_102 output = Inr ?p" using assms by (simp add: permute_102_def)
  have "index0 ?p (- 1) = Inr \<lparr>shape = [B, D], elem = (\<lambda>idx. elem ?p ((T - 1) # idx))\<rparr>"
    using index0_last [of ?p T "[B, D]" 1] h by simp
  with h assms p
  show "\<exists>r. process_rnn_outputs num m output hidden = Inr r \<and> shape r = [B, D] \<and>
            (\<forall>b j. elem r [b, j] = elem output [b, T - 1, j])"
    by (simp add: process_rnn_outputs_def)
qed

theorem C6_witness:
  "\<not> with_attention (cfg example_model) \<and>
   shape example_output = [5, 5, 4] \<and> shape example_hidden = [1, 5, 4] \<and>
   use_hidden_state (cfg example_model) \<and> \<not> bidirectional (cfg example_model) \<and>
   shape (projr (process_rnn_outputs example_num example_model example_output example_hidden)) = [5, 4] \<and>
   elem (projr (process_rnn_outputs example_num example_model example_output example_hidden)) [2, 3] =
     elem example_hidden [0, 2, 3] \<and>
   \<not> use_hidden_state (cfg (example_model\<lparr>cfg := example_config\<lparr>use_hidden_state := False\<rparr>\<rparr>)) \<and>
   shape (projr (process_rnn_outputs example_num
            (example_model\<lparr>cfg := example_config\<lparr>use_hidden_state := False\<rparr>\<rparr>)
            example_output example_hidden)) = [5, 4] \<and>
   elem (projr (process_rnn_outputs example_num
            (example_model\<lparr>cfg := example_config\<lparr>use_hidden_state := False\<rparr>\<rparr>)
            example_output example_hidden)) [2, 3] = elem example_output [2, 4, 3] \<and>
   bidirectional (cfg (example_model\<lparr>cfg := example_config\<lparr>bidirectional := True\<rparr>\<rparr>)) \<and>
   shape example_output_bi = [5, 5, 8] \<and> shape example_hidden_bi = [2, 5, 4] \<and>
   shape (projr (process_rnn_outputs example_num
            (example_model\<lparr>cfg := example_config\<lparr>bidirectional := True\<rparr>\<rparr>)
            example_output_bi example_hidden_bi)) = [5, 8] \<and>
   elem (projr (process_rnn_outputs example_num
            (example_model\<lparr>cfg := example_config\<lparr>bidirectional := True\<rparr>\<rparr>)
            example_output_bi example_hidden_bi)) [2, 1] = elem example_hidden_bi [0, 2, 1] \<and>
   elem (projr (process_rnn_outputs example_num
            (example_model\<lparr>cfg := example_config\<lparr>bidirectional := True\<rparr>\<rparr>)
            example_output_bi example_hidden_bi)) [2, 5] = elem example_hidden_bi [1, 2, 1]"
proof -
  let ?m1 = example_model
  let ?m2 = "example_model\<lparr>cfg := example_config\<lparr>use_hidden_state := False\<rparr>\<rparr>"
  let ?m3 = "example_model\<lparr>cfg := example_config\<lparr>bidirectional := True\<rparr>\<rparr>"
  have c1: "\<not> with_attention (cfg ?m1)" "use_hidden_state (cfg ?m1)" "\<not> bidirectional (cfg ?m1)"
    by (simp_all add: example_model_def example_config_def)
  have c2: "\<not> with_attention (cfg ?m2)" "\<not> use_hidden_state (cfg ?m2)"
    by (simp_all add: example_model_def example_config_def)
  have c3: "\<not> with_attention (cfg ?m3)" "use_hidden_state (cfg ?m3)" "bidirectional (cfg ?m3)"
    by (simp_all add: example_model_def example_config_def)
  have s1: "shape example_output = [5, 5, 4]" "shape example_hidden = [1, 5, 4]"
    by (simp_all add: example_output_def example_hidden_def)
  have s3: "shape example_output_bi = [5, 5, 8]" "shape example_hidden_bi = [2, 5, 4]"
    by (simp_all add: example_output_bi_def example_hidden_bi_def)
  from C6_output_selection_without_attention [OF c1(1) s1, of example_num] c1
  have r1: "shape (projr (process_rnn_outputs example_num ?m1 example_output example_hidden)) = [5, 4] \<and>
            elem (projr (process_rnn_outputs example_num ?m1 example_output example_hidden)) [2, 3] =
              elem example_hidden [0, 2, 3]"
    by auto
  from C6_output_selection_without_attention [OF c2(1) s1, of example_num] c2
  have r2: "shape (projr (process_rnn_outputs example_num ?m2 example_output example_hidden)) = [5, 4] \<and>
            elem (projr (process_rnn_outputs example_num ?m2 example_output example_hidden)) [2, 3] =
              elem example_output [2, 4, 3]"
    by auto
  from C6_output_selection_without_attention [OF c3(1) s3, of example_num] c3
  have r3: "shape (projr (process_rnn_outputs example_num ?m3 example_output_bi example_hidden_bi)) = [5, 8] \<and>
            elem (projr (process_rnn_outputs example_num ?m3 example_output_bi example_hidden_bi)) [2, 1] =
              elem example_hidden_bi [0, 2, 1] \<and>
            elem (projr (process_rnn_outputs example_num ?m3 example_output_bi example_hidden_bi)) [2, 5] =
              elem example_hidden_bi [1, 2, 1]"
    by auto
  from c1 c2 c3 s1 s3 r1 r2 r3 show ?thesis by blast
qed

subsection \<open>The input of the attention module\<close>

lemma attention_init:
  "snd (AttentiveRNN_init (attention_config bi conc) (Some example_matrix)) =
     Inr \<lparr>cfg = attention_config bi conc,
          word_embed = word_embed example_model,
          rnn = Some \<lparr>cell = LSTM, input_size = 4, hidden_size = 4, num_layers = 1,
                       rnn_bidirectional = bi, dropout = 0.1, batch_first = True\<rparr>,
          attn = Some \<lparr>ca_input_dim = attn_input_dim (attention_config bi conc),
                        ca_dropout = 0.1, sum_along_seq = True\<rparr>,
          attn_rnn_mlp = None,
          output_dim = attn_input_dim (attention_config bi conc)\<rparr>"
  by (simp add: AttentiveRNN_init_def attention_config_def example_config_def example_matrix_def
      example_model_def set_embeddings_def make_rnn_def lower_examples)

lemma attention_model_simps:
  "cfg (attention_model bi conc) = attention_config bi conc"
  "word_embed (attention_model bi conc) = word_embed example_model"
  "rnn (attention_model bi conc) =
     Some \<lparr>cell = LSTM, input_size = 4, hidden_size = 4, num_layers = 1,
            rnn_bidirectional = bi, dropout = 0.1, batch_first = True\<rparr>"
  "attn (attention_model bi conc) =
     Some \<lparr>ca_input_dim = attn_input_dim (attention_config bi conc),
            ca_dropout = 0.1, sum_along_seq = True\<rparr>"
  "attn_rnn_mlp (attention_model bi conc) = None"
  "output_dim (attention_model bi conc) = attn_input_dim (attention_config bi conc)"
  by (simp_all add: attention_model_def attention_init)

lemma attention_config_simps:
  "with_attention (attention_config bi conc)"
  "bidirectional (attention_config bi conc) = bi"
  "attn_concatenate (attention_config bi conc) = conc"
  "hidden_dim (attention_config bi conc) = 4"
  "rnn_type (attention_config bi conc) = ''lstm''"
  "head_hidden_dims (attention_config bi conc) = None"
  by (simp_all add: attention_config_def example_config_def)

lemma example_embedded:
  "Embedding_forward example_num (word_embed example_model) example_X =
     Inr \<lparr>shape = [5, 5, 4], elem = example_num ''word_embed'' [example_X]\<rparr>"
  by (simp add: Embedding_forward_def example_model_def example_X_def)

lemma attn_inp_unassigned:
  "attn_concatenate (cfg m) \<Longrightarrow> \<not> bidirectional (cfg m) \<Longrightarrow>
     attn_inp m output hidden = Inl (UnboundLocalError ''attn_inp'')"
  by (simp add: attn_inp_def)

lemma expand_as_shape: "expand_as x y = Inr e \<Longrightarrow> shape e = shape y"
  by (auto simp: expand_as_def Let_def split: if_splits)

lemma cat_broadcast_shape:
  assumes "cat_broadcast output h = Inr a" and "shape output = [B, T, D]"
  shows "shape a = [B, T, D + D]"
proof -
  from assms(1) obtain u ex where "expand_as u output = Inr ex" and c: "torch_cat output ex 2 = Inr a"
    by (auto simp: cat_broadcast_def split: sum.splits)
  then have "shape ex = [B, T, D]" using assms(2) by (simp add: expand_as_shape)
  with c assms(2) show ?thesis
    by (auto simp: torch_cat_def Let_def split: if_splits)
qed

lemma attn_inp_never_raw_output:
  "attn_inp m output hidden = Inr a \<Longrightarrow> shape output = [B, T, D] \<Longrightarrow> shape a = [B, T, D + D]"
  by (auto simp: attn_inp_def split: sum.splits if_splits dest: cat_broadcast_shape)

text \<open>With both \<^verbatim>\<open>attn_concatenate\<close> and \<^verbatim>\<open>bidirectional\<close> set the input of the attention
  module is what the specification describes: the output sequence followed, at every
  timestep, by the final hidden states of the two directions.\<close>

lemma cat_broadcast_ok:
  assumes "shape output = [B, T, D]" and "shape h = [B, D]"
  shows "\<exists>a. cat_broadcast output h = Inr a \<and> shape a = [B, T, D + D] \<and>
             (\<forall>b t j. j < D \<longrightarrow> elem a [b, t, j] = elem output [b, t, j]) \<and>
             (\<forall>b t j. b < B \<and> D \<le> j \<and> j < D + D \<longrightarrow> elem a [b, t, j] = elem h [b, j - D])"
  using assms
  by (auto simp: cat_broadcast_def unsqueeze_def expand_as_def expandable_def torch_cat_def Let_def)

lemma attn_inp_bidirectional_concatenate:
  assumes "attn_concatenate (cfg m)" and "bidirectional (cfg m)"
    and "shape output = [B, T, H + H]" and "shape hidden = [L, B, H]" and "2 \<le> L"
  shows "\<exists>a. attn_inp m output hidden = Inr a \<and> shape a = [B, T, (H + H) + (H + H)] \<and>
             (\<forall>b t j. j < H + H \<longrightarrow> elem a [b, t, j] = elem output [b, t, j]) \<and>
             (\<forall>b t j. b < B \<and> j < H \<longrightarrow> elem a [b, t, H + H + j] = elem hidden [L - 2, b, j]) \<and>
             (\<forall>b t j. b < B \<and> H \<le> j \<and> j < H + H \<longrightarrow>
                elem a [b, t, H + H + j] = elem hidden [L - 1, b, j - H])"
proof -
  let ?bi = "\<lparr>shape = [B, H + H],
          elem = (\<lambda>idx. if idx ! 1 < H then elem hidden ((L - 2) # idx)
                         else elem hidden ((L - 1) # idx[1 := idx ! 1 - H]))\<rparr>"
  have c: "cat_hidden hidden = Inr ?bi" using cat_hidden_ok [OF assms(4,5)] .
  have "shape ?bi = [B, H + H]" by simp
  from cat_broadcast_ok [OF assms(3) this] obtain a where
    a: "cat_broadcast output ?bi = Inr a" "shape a = [B, T, (H + H) + (H + H)]"
      "\<forall>b t j. j < H + H \<longrightarrow> elem a [b, t, j] = elem output [b, t, j]"
      "\<forall>b t j. b < B \<and> H + H \<le> j \<and> j < (H + H) + (H + H) \<longrightarrow>
         elem a [b, t, j] = elem ?bi [b, j - (H + H)]"
    by blast
  have "elem a [b, t, H + H + j] = elem hidden [L - 2, b, j]" if "b < B \<and> j < H" for b t j
    using a(4) that by simp
  moreover have "elem a [b, t, H + H + j] = elem hidden [L - 1, b, j - H]"
    if "b < B \<and> H \<le> j \<and> j < H + H" for b t j
    using a(4) that by simp
  ultimately show ?thesis using a(1-3) c assms(1,2)
    by (simp add: attn_inp_def)
qed

text \<open>
  Claim C2 fails on the code in two of its cases. The constructor accepts attention
  with \<^verbatim>\<open>attn_concatenate\<close> set and a single direction, and then the local \<^verbatim>\<open>attn_inp\<close>
  is read where it was never assigned. With \<^verbatim>\<open>attn_concatenate\<close> not set the input of
  the attention module is not the raw output sequence of shape (5, 5, 4): it has shape
  (5, 5, 8), and its element at position 5 of the last timestep of sample 2 is element 1
  of the final hidden state of that sample.
\<close>

theorem C2_attention_input_failing_configurations:
  "\<not> isl (snd (AttentiveRNN_init (attention_config False True) (Some example_matrix))) \<and>
   attn_inp (attention_model False True) example_output example_hidden =
     Inl (UnboundLocalError ''attn_inp'') \<and>
   \<not> isl (snd (AttentiveRNN_init (attention_config False False) (Some example_matrix))) \<and>
   shape example_output = [5, 5, 4] \<and>
   map_sum id shape (attn_inp (attention_model False False) example_output example_hidden) =
     Inr [5, 5, 8] \<and>
   map_sum id (\<lambda>a. elem a [2, 4, 5]) (attn_inp (attention_model False False) example_output example_hidden) =
     Inr (elem example_hidden [0, 2, 1])"
  by (simp add: attention_init attn_inp_def attention_model_simps attention_config_simps
      index0_def py_index_def cat_broadcast_def unsqueeze_def expand_as_def expandable_def
      torch_cat_def example_output_def example_hidden_def Let_def)

subsection \<open>The width of the result and \<^verbatim>\<open>output_dim\<close>\<close>

text \<open>What the constructor leaves in the object, and that it always fails without a
  pretrained matrix.\<close>

lemma init_Inr_fields:
  assumes "snd (AttentiveRNN_init c em) = Inr m"
  shows "cfg m = c"
    and "\<exists>M. em = Some M \<and> weight_shape (word_embed m) = [nd_rows M, nd_cols M] \<and>
           rnn m = Some \<lparr>cell = (if lower (rnn_type c) = ''lstm'' then LSTM else GRU),
                          input_size = nd_cols M, hidden_size = hidden_dim c,
                          num_layers = n_layers c, rnn_bidirectional = bidirectional c,
                          dropout = rnn_dropout c, batch_first = True\<rparr>"
    and "with_attention c \<longrightarrow> (\<exists>ca. attn m = Some ca \<and> ca_input_dim ca = attn_input_dim c \<and> sum_along_seq ca)"
    and "head_hidden_dims c = None \<longrightarrow>
           output_dim m = (if with_attention c then attn_input_dim c
                           else if bidirectional c then hidden_dim c * 2 else hidden_dim c)"
    and "\<forall>hs. head_hidden_dims c = Some hs \<longrightarrow>
           (\<exists>mlp. attn_rnn_mlp m = Some mlp \<and>
              d_hidden mlp = (if with_attention c then attn_input_dim c
                              else if bidirectional c then hidden_dim c * 2 else hidden_dim c) # hs \<and>
              output_dim m = last (d_hidden mlp))"
  using assms
  by (auto simp: AttentiveRNN_init_def set_embeddings_def make_rnn_def Let_def
      split: if_splits sum.splits prod.splits option.splits)

lemma init_without_matrix:
  "lower (rnn_type c) = ''lstm'' \<or> lower (rnn_type c) = ''gru'' \<Longrightarrow>
     snd (AttentiveRNN_init c None) = Inl (UnboundLocalError ''embed_dim'')"
  by (auto simp: AttentiveRNN_init_def set_embeddings_def)

text \<open>Without attention, and with attention when both \<^verbatim>\<open>bidirectional\<close> and
  \<^verbatim>\<open>attn_concatenate\<close> are set, \<^verbatim>\<open>forward\<close> returns a tensor of the declared width for
  every batch of non-empty sequences.\<close>

lemma no_attention_shape:
  assumes "\<not> with_attention (cfg m)"
    and "shape output = [B, T, D]" and "shape hidden = [L, B, H]"
    and "1 \<le> T" and "1 \<le> L" and "bidirectional (cfg m) \<longrightarrow> 2 \<le> L"
  shows "\<exists>p. process_rnn_outputs num m output hidden = Inr p \<and>
             shape p = [B, if use_hidden_state (cfg m)
                           then (if bidirectional (cfg m) then H + H else H) else D]"
proof -
  let ?p = "\<lparr>shape = [T, B, D], elem = (\<lambda>idx. elem output [idx ! 1, idx ! 0, idx ! 2])\<rparr>"
  have p: "permute_102 output = Inr ?p" using assms(2) by (simp add: permute_102_def)
  have o: "index0 ?p (- 1) = Inr \<lparr>shape = [B, D], elem = (\<lambda>idx. elem ?p ((T - 1) # idx))\<rparr>"
    using index0_last [of ?p T "[B, D]" 1] assms(4) by simp
  have h: "index0 hidden (- 1) = Inr \<lparr>shape = [B, H], elem = (\<lambda>idx. elem hidden ((L - 1) # idx))\<rparr>"
    using index0_last [of hidden L "[B, H]" 1] assms(3,5) by simp
  show ?thesis
  proof (cases "bidirectional (cfg m) \<and> use_hidden_state (cfg m)")
    case True
    with assms(6) have "2 \<le> L" by simp
    from cat_hidden_ok [OF assms(3) this] True assms(1) p show ?thesis
      by (simp add: process_rnn_outputs_def)
  next
    case False
    with assms(1) p o h show ?thesis
      by (auto simp: process_rnn_outputs_def)
  qed
qed

lemma process_rnn_outputs_width:
  assumes "snd (AttentiveRNN_init c em) = Inr m"
    and "with_attention c \<longrightarrow> bidirectional c \<and> attn_concatenate c"
    and "shape output = [B, T, (if bidirectional c then 2 else 1) * hidden_dim c]"
    and "shape hidden = [n_layers c * (if bidirectional c then 2 else 1), B, hidden_dim c]"
    and "1 \<le> n_layers c" and "1 \<le> T"
  shows "\<exists>p. process_rnn_outputs num m output hidden = Inr p \<and>
             shape p = [B, if with_attention c then attn_input_dim c
                           else if bidirectional c then hidden_dim c * 2 else hidden_dim c]"
proof (cases "with_attention c")
  case True
  with assms(2) have bc: "bidirectional c" "attn_concatenate c" by simp_all
  from init_Inr_fields(1,3) [OF assms(1)] True obtain ca where
    ca: "cfg m = c" "attn m = Some ca" "ca_input_dim ca = attn_input_dim c" "sum_along_seq ca"
    by auto
  have so: "shape output = [B, T, hidden_dim c + hidden_dim c]" using assms(3) bc by simp
  have sh: "shape hidden = [n_layers c * 2, B, hidden_dim c]" using assms(4) bc by simp
  have l: "2 \<le> n_layers c * 2" using assms(5) by simp
  from attn_inp_bidirectional_concatenate [of m "output" B T "hidden_dim c" hidden "n_layers c * 2"]
    ca(1) bc so sh l
  obtain a where a: "attn_inp m output hidden = Inr a"
    "shape a = [B, T, (hidden_dim c + hidden_dim c) + (hidden_dim c + hidden_dim c)]"
    by auto
  from a ca True bc show ?thesis
    by (simp add: process_rnn_outputs_def ContextAttention_forward_def attn_input_dim_def)
next
  case False
  from init_Inr_fields(1) [OF assms(1)] have cm: "cfg m = c" .
  have na: "\<not> with_attention (cfg m)" using False cm by simp
  show ?thesis
  proof (cases "bidirectional c")
    case bi: True
    have sh: "shape hidden = [n_layers c * 2, B, hidden_dim c]" using assms(4) bi by simp
    have so: "shape output = [B, T, 2 * hidden_dim c]" using assms(3) bi by simp
    have l: "2 \<le> n_layers c * 2" using assms(5) by simp
    from no_attention_shape [OF na so sh, of num] l assms(5,6) bi cm False show ?thesis
      by auto
  next
    case uni: False
    have sh: "shape hidden = [n_layers c, B, hidden_dim c]" using assms(4) uni by simp
    have so: "shape output = [B, T, hidden_dim c]" using assms(3) uni by simp
    from no_attention_shape [OF na so sh, of num] assms(5,6) uni cm False show ?thesis
      by auto
  qed
qed

lemma AttentiveRNN_forward_width:
  assumes "snd (AttentiveRNN_init c em) = Inr m"
    and "with_attention c \<longrightarrow> bidirectional c \<and> attn_concatenate c"
    and "shape X = [B, T]" and "1 \<le> T" and "1 \<le> n_layers c"
  shows "\<exists>r. AttentiveRNN_forward num m X = Inr r \<and> shape r = [B, output_dim m]"
proof -
  let ?w = "if with_attention c then attn_input_dim c
            else if bidirectional c then hidden_dim c * 2 else hidden_dim c"
  let ?D = "(if bidirectional c then 2 else 1) :: nat"
  from init_Inr_fields(1) [OF assms(1)] have cm: "cfg m = c" .
  from init_Inr_fields(2) [OF assms(1)] obtain M :: ndarray where
    w: "weight_shape (word_embed m) = [nd_rows M, nd_cols M]"
    and r: "rnn m = Some \<lparr>cell = (if lower (rnn_type c) = ''lstm'' then LSTM else GRU),
                          input_size = nd_cols M, hidden_size = hidden_dim c,
                          num_layers = n_layers c, rnn_bidirectional = bidirectional c,
                          dropout = rnn_dropout c, batch_first = True\<rparr>"
    by auto
  from init_Inr_rnn_type [OF assms(1)]
  have t: "lower (rnn_type c) = ''lstm'' \<or> lower (rnn_type c) = ''gru''" by simp
  let ?e = "\<lparr>shape = [B, T, nd_cols M], elem = num ''word_embed'' [X]\<rparr>"
  have e: "Embedding_forward num (word_embed m) X = Inr ?e"
    using w assms(3) by (simp add: Embedding_forward_def)
  let ?out = "\<lparr>shape = [B, T, ?D * hidden_dim c], elem = num ''rnn.output'' [?e]\<rparr>"
  let ?h = "\<lparr>shape = [n_layers c * ?D, B, hidden_dim c], elem = num ''rnn.hidden'' [?e]\<rparr>"
  have f: "RNN_forward num (the (rnn m)) ?e = Inr (?out, ?h)"
    using r by (simp add: RNN_forward_def num_directions_def)
  from process_rnn_outputs_width [OF assms(1,2), of ?out B T ?h num] assms(4,5)
  obtain p where p: "process_rnn_outputs num m ?out ?h = Inr p" "shape p = [B, ?w]"
    by auto
  show ?thesis
  proof (cases "head_hidden_dims c")
    case None
    with init_Inr_fields(4) [OF assms(1)] have "output_dim m = ?w" by simp
    with e f p r t cm None show ?thesis
      by (auto simp: AttentiveRNN_forward_def)
  next
    case (Some hs)
    with init_Inr_fields(5) [OF assms(1)] obtain mlp where
      mlp: "attn_rnn_mlp m = Some mlp" "d_hidden mlp = ?w # hs" "output_dim m = last (d_hidden mlp)"
      by auto
    have "MLP_forward num mlp p = Inr \<lparr>shape = [B, last (?w # hs)], elem = num ''mlp'' [p]\<rparr>"
      using p(2) mlp(2) by (simp add: MLP_forward_def)
    with e f p r t cm Some mlp show ?thesis
      by (auto simp: AttentiveRNN_forward_def)
  qed
qed

text \<open>Whenever \<^verbatim>\<open>forward\<close> of a constructed object returns, the result has the
  declared width.\<close>

lemma index0_Inr_shape: "index0 x i = Inr y \<Longrightarrow> shape x = n # ds \<Longrightarrow> shape y = ds"
  by (auto simp: index0_def split: sum.splits)

lemma cat_hidden_Inr_shape:
  assumes "cat_hidden hidden = Inr x" and "shape hidden = [L, B, H]"
  shows "shape x = [B, H + H]"
proof -
  from assms(1) obtain h2 h1 where
    h: "index0 hidden (- 2) = Inr h2" "index0 hidden (- 1) = Inr h1" "torch_cat h2 h1 1 = Inr x"
    by (auto simp: cat_hidden_def split: sum.splits)
  from index0_Inr_shape [OF h(1) assms(2)] index0_Inr_shape [OF h(2) assms(2)] h(3)
  show ?thesis by (auto simp: torch_cat_def Let_def split: if_splits)
qed

lemma no_attention_Inr_shape:
  assumes "process_rnn_outputs num m output hidden = Inr p" and "\<not> with_attention (cfg m)"
    and "shape output = [B, T, D]" and "shape hidden = [L, B, H]"
  shows "shape p = [B, if use_hidden_state (cfg m)
                       then (if bidirectional (cfg m) then H + H else H) else D]"
proof -
  let ?p = "\<lparr>shape = [T, B, D], elem = (\<lambda>idx. elem output [idx ! 1, idx ! 0, idx ! 2])\<rparr>"
  have p: "permute_102 output = Inr ?p" using assms(3) by (simp add: permute_102_def)
  have sp: "shape ?p = [T, B, D]" by simp
  from assms(1,2) p consider
      "use_hidden_state (cfg m)" "bidirectional (cfg m)" "cat_hidden hidden = Inr p"
    | "use_hidden_state (cfg m)" "\<not> bidirectional (cfg m)" "index0 hidden (- 1) = Inr p"
    | "\<not> use_hidden_state (cfg m)" "index0 ?p (- 1) = Inr p"
    by (auto simp: process_rnn_outputs_def split: if_splits)
  then show ?thesis
  proof cases
    case 1
    with cat_hidden_Inr_shape [OF 1(3) assms(4)] show ?thesis by simp
  next
    case 2
    with index0_Inr_shape [OF 2(3) assms(4)] show ?thesis by simp
  next
    case 3
    with index0_Inr_shape [OF 3(2) sp] show ?thesis by simp
  qed
qed

lemma RNN_forward_Inr:
  assumes "RNN_forward num r x = Inr (out, h)"
  shows "\<exists>b t. shape out = [b, t, num_directions r * hidden_size r] \<and>
               shape h = [num_layers r * num_directions r, b, hidden_size r]"
  using assms by (auto simp: RNN_forward_def split: list.splits if_splits)

lemma ContextAttention_forward_Inr:
  assumes "ContextAttention_forward num ca x = Inr y" and "sum_along_seq ca"
  shows "\<exists>b. shape y = [b, ca_input_dim ca]"
  using assms by (auto simp: ContextAttention_forward_def split: list.splits if_splits)

lemma MLP_forward_Inr:
  assumes "MLP_forward num mlp x = Inr y"
  shows "\<exists>b. shape y = [b, last (d_hidden mlp)]"
  using assms by (auto simp: MLP_forward_def split: list.splits if_splits)

lemma AttentiveRNN_forward_Inr_width:
  assumes "snd (AttentiveRNN_init c em) = Inr m" and "AttentiveRNN_forward num m X = Inr r"
  shows "\<exists>B. shape r = [B, output_dim m]"
proof -
  from init_Inr_fields(1) [OF assms(1)] have cm: "cfg m = c" .
  from init_Inr_fields(2) [OF assms(1)] obtain M :: ndarray where
    rn: "rnn m = Some \<lparr>cell = (if lower (rnn_type c) = ''lstm'' then LSTM else GRU),
                          input_size = nd_cols M, hidden_size = hidden_dim c,
                          num_layers = n_layers c, rnn_bidirectional = bidirectional c,
                          dropout = rnn_dropout c, batch_first = True\<rparr>"
    by auto
  from assms(2) obtain e rr out h p where
    f: "rnn m = Some rr" "RNN_forward num rr e = Inr (out, h)"
       "process_rnn_outputs num m out h = Inr p"
    and res: "(head_hidden_dims c = None \<and> r = p) \<or>
              (\<exists>mlp. head_hidden_dims c \<noteq> None \<and> attn_rnn_mlp m = Some mlp \<and> MLP_forward num mlp p = Inr r)"
    using cm
    by (auto simp: AttentiveRNN_forward_def split: sum.splits option.splits if_splits prod.splits)
  from res show ?thesis
  proof
    assume a: "head_hidden_dims c = None \<and> r = p"
    show ?thesis
    proof (cases "with_attention c")
      case True
      from init_Inr_fields(3) [OF assms(1)] True obtain ca where
        ca: "attn m = Some ca" "ca_input_dim ca = attn_input_dim c" "sum_along_seq ca" by auto
      from f(3) True cm ca(1) obtain ai where "ContextAttention_forward num ca ai = Inr p"
        by (auto simp: process_rnn_outputs_def split: sum.splits)
      from ContextAttention_forward_Inr [OF this ca(3)] ca(2) a True
        init_Inr_fields(4) [OF assms(1)]
      show ?thesis by simp
    next
      case False
      from RNN_forward_Inr [OF f(2)] f(1) rn obtain b t where
        s: "shape out = [b, t, (if bidirectional c then 2 else 1) * hidden_dim c]"
           "shape h = [n_layers c * (if bidirectional c then 2 else 1), b, hidden_dim c]"
        by (auto simp: num_directions_def)
      from False cm have "\<not> with_attention (cfg m)" by simp
      from no_attention_Inr_shape [OF f(3) this s] a False cm init_Inr_fields(4) [OF assms(1)]
      show ?thesis by auto
    qed
  next
    assume "\<exists>mlp. head_hidden_dims c \<noteq> None \<and> attn_rnn_mlp m = Some mlp \<and> MLP_forward num mlp p = Inr r"
    then obtain mlp hs where
      m: "head_hidden_dims c = Some hs" "attn_rnn_mlp m = Some mlp" "MLP_forward num mlp p = Inr r"
      by auto
    from init_Inr_fields(5) [OF assms(1)] m(1,2) have "output_dim m = last (d_hidden mlp)" by auto
    with MLP_forward_Inr [OF m(3)] show ?thesis by simp
  qed
qed

text \<open>
  Claim C1 fails on the code for AttentiveRNN with attention, unless both
  \<^verbatim>\<open>bidirectional\<close> and \<^verbatim>\<open>attn_concatenate\<close> are set. The constructor accepts the three
  configurations below and declares \<^verbatim>\<open>output_dim\<close> 8, 4 and 8; \<^verbatim>\<open>forward\<close> returns no
  vector for any of them. With \<^verbatim>\<open>attn_concatenate\<close> and one direction the
  local \<^verbatim>\<open>attn_inp\<close> is unassigned. With neither flag the attention module, built for
  width 4, is given width 8. With \<^verbatim>\<open>bidirectional\<close> only, the last row of the hidden
  state, of width 4, cannot be broadcast to the output sequence of width 8.
\<close>

theorem C1_forward_fails_with_attention:
  "\<not> isl (snd (AttentiveRNN_init (attention_config False True) (Some example_matrix))) \<and>
   output_dim (attention_model False True) = 8 \<and>
   AttentiveRNN_forward example_num (attention_model False True) example_X =
     Inl (UnboundLocalError ''attn_inp'') \<and>
   \<not> isl (snd (AttentiveRNN_init (attention_config False False) (Some example_matrix))) \<and>
   output_dim (attention_model False False) = 4 \<and>
   AttentiveRNN_forward example_num (attention_model False False) example_X = Inl RuntimeError \<and>
   \<not> isl (snd (AttentiveRNN_init (attention_config True False) (Some example_matrix))) \<and>
   output_dim (attention_model True False) = 8 \<and>
   AttentiveRNN_forward example_num (attention_model True False) example_X = Inl RuntimeError"
  by (simp add: attention_init AttentiveRNN_forward_def example_embedded attention_model_simps
      attention_config_simps attn_input_dim_def lower_examples RNN_forward_def num_directions_def
      process_rnn_outputs_def attn_inp_def
      index0_def py_index_def cat_broadcast_def unsqueeze_def expand_as_def expandable_def
      torch_cat_def ContextAttention_forward_def Let_def)

section \<open>Properties of SAINT\<close>

subsection \<open>The registered blocks\<close>

text \<open>\<^verbatim>\<open>str\<close> is injective on the block indices, hence the block names are pairwise
  different and the loop of the constructor registers \<^verbatim>\<open>n_blocks\<close> blocks.\<close>

lemma digit_char_inj: "a < 10 \<Longrightarrow> b < 10 \<Longrightarrow> digit_char a = digit_char b \<Longrightarrow> a = b"
proof -
  assume a: "a < 10" and b: "b < 10" and e: "digit_char a = digit_char b"
  from e have "(of_char (digit_char a) :: nat) = of_char (digit_char b)" by simp
  then have "(48 + a) mod 256 = (48 + b) mod 256"
    by (simp add: digit_char_def)
  with a b show "a = b" by simp
qed

lemma str_nat_nonempty: "str_nat n \<noteq> []"
  by (subst str_nat.simps) simp

lemma str_nat_inj: "str_nat a = str_nat b \<Longrightarrow> a = b"
proof (induction a arbitrary: b rule: str_nat.induct)
  case (1 a)
  show ?case
  proof (cases "a < 10")
    case True
    then have sa: "str_nat a = [digit_char a]" by (subst str_nat.simps) simp
    show ?thesis
    proof (cases "b < 10")
      case bT: True
      then have "str_nat b = [digit_char b]" by (subst str_nat.simps) simp
      with sa "1.prems" True bT show ?thesis by (simp add: digit_char_inj)
    next
      case bF: False
      then have "str_nat b = str_nat (b div 10) @ [digit_char (b mod 10)]"
        by (subst str_nat.simps) simp
      with sa "1.prems" str_nat_nonempty [of "b div 10"] show ?thesis by simp
    qed
  next
    case False
    then have sa: "str_nat a = str_nat (a div 10) @ [digit_char (a mod 10)]"
      by (subst str_nat.simps) simp
    show ?thesis
    proof (cases "b < 10")
      case bT: True
      then have "str_nat b = [digit_char b]" by (subst str_nat.simps) simp
      with sa "1.prems" str_nat_nonempty [of "a div 10"] show ?thesis by simp
    next
      case bF: False
      then have "str_nat b = str_nat (b div 10) @ [digit_char (b mod 10)]"
        by (subst str_nat.simps) simp
      with sa "1.prems" have e1: "str_nat (a div 10) = str_nat (b div 10)"
        and e2: "digit_char (a mod 10) = digit_char (b mod 10)" by simp_all
      from "1.IH" [OF False e1] have d: "a div 10 = b div 10" .
      from e2 have m: "a mod 10 = b mod 10" by (simp add: digit_char_inj)
      from d m show ?thesis by (metis div_mult_mod_eq)
    qed
  qed
qed

lemma fold_add_module:
  "distinct (map nm xs) \<Longrightarrow> set (map nm xs) \<inter> set (map fst acc) = {} \<Longrightarrow>
     fold (\<lambda>i seq. add_module (nm i) (mk i) seq) xs acc = acc @ map (\<lambda>i. (nm i, mk i)) xs"
proof (induction xs arbitrary: acc)
  case Nil
  then show ?case by simp
next
  case (Cons x xs)
  from Cons.prems have a: "add_module (nm x) (mk x) acc = acc @ [(nm x, mk x)]"
    by (auto simp: add_module_def)
  from Cons.prems have "distinct (map nm xs)"
    and "set (map nm xs) \<inter> set (map fst (acc @ [(nm x, mk x)])) = {}" by auto
  from Cons.IH [OF this] a show ?case by simp
qed

lemma make_blocks_eq:
  "make_blocks c nf = map (\<lambda>i. (''saint_block'' @ str_nat i, new_block c nf)) [0..<nat (n_blocks c)]"
proof -
  have "distinct (map (\<lambda>i. ''saint_block'' @ str_nat i) [0..<nat (n_blocks c)])"
    by (auto simp: distinct_map inj_on_def dest: str_nat_inj)
  from fold_add_module [OF this, of "[]" "\<lambda>i. new_block c nf"]
  show ?thesis by (simp add: make_blocks_def)
qed

lemma make_blocks_props:
  "length (make_blocks c nf) = nat (n_blocks c)"
  "p \<in> set (make_blocks c nf) \<Longrightarrow> snd p = new_block c nf"
  "i < nat (n_blocks c) \<Longrightarrow> snd (make_blocks c nf ! i) = new_block c nf"
  by (auto simp: make_blocks_eq)

lemma new_block_simps:
  "enc_n_feat (new_block c nf) = nf"
  "enc_input_dim (new_block c nf) = input_dim c"
  "enc_n_heads (new_block c nf) = n_heads c"
  by (simp_all add: new_block_def)

subsection \<open>Running the blocks\<close>

lemma SaintEncoder_forward_Inr:
  assumes "SaintEncoder_forward num name blk x = Inr (blk', y)" and "shape x = [b, n, d]"
  shows "enc_n_feat blk = n" and "enc_input_dim blk = d" and "shape y = [b, n, d]"
    and "\<exists>cw rw. col_attn_weights blk' = Some cw \<and> row_attn_weights blk' = Some rw \<and>
                shape cw = [b, enc_n_heads blk, n, n] \<and> shape rw = [1, enc_n_heads blk, b, b]"
  using assms
  by (auto simp: SaintEncoder_forward_def split: if_splits)


lemma SaintEncoder_forward_ok:
  assumes "shape x = [b, enc_n_feat blk, enc_input_dim blk]"
  shows "\<exists>blk' y. SaintEncoder_forward num name blk x = Inr (blk', y)"
  using assms by (simp add: SaintEncoder_forward_def)

lemma Sequential_forward_Inr:
  assumes "Sequential_forward num blks x = Inr (blks', y)"
    and "shape x = [b, n, d]"
  shows "shape y = [b, n, d] \<and> length blks' = length blks \<and>
         (\<exists>ws. block_weights blks' = Inr ws \<and> length ws = length blks \<and>
            (\<forall>i < length blks.
               shape (fst (ws ! i)) = [b, enc_n_heads (snd (blks ! i)), n, n] \<and>
               shape (snd (ws ! i)) = [1, enc_n_heads (snd (blks ! i)), b, b]))"
  using assms
proof (induction blks arbitrary: x blks')
  case Nil
  then show ?case by simp
next
  case (Cons p blks)
  obtain name blk where p: "p = (name, blk)" by (cases p)
  from Cons.prems(1) p obtain blk' y1 rest' where
    f: "SaintEncoder_forward num name blk x = Inr (blk', y1)"
    and r: "Sequential_forward num blks y1 = Inr (rest', y)"
    and b': "blks' = (name, blk') # rest'"
    by (auto split: sum.splits prod.splits)
  from SaintEncoder_forward_Inr(3) [OF f Cons.prems(2)] have sy1: "shape y1 = [b, n, d]" .
  from SaintEncoder_forward_Inr(4) [OF f Cons.prems(2)] obtain cw rw where
    cw: "col_attn_weights blk' = Some cw" "row_attn_weights blk' = Some rw"
      "shape cw = [b, enc_n_heads blk, n, n]" "shape rw = [1, enc_n_heads blk, b, b]"
    by blast
  from Cons.IH [OF r sy1] obtain ws where
    ih: "shape y = [b, n, d]" "length rest' = length blks"
      "block_weights rest' = Inr ws" "length ws = length blks"
      "\<forall>i < length blks.
         shape (fst (ws ! i)) = [b, enc_n_heads (snd (blks ! i)), n, n] \<and>
         shape (snd (ws ! i)) = [1, enc_n_heads (snd (blks ! i)), b, b]"
    by blast
  have w: "block_weights blks' = Inr ((cw, rw) # ws)"
    using b' cw ih(3) by simp
  have "\<forall>i < length (p # blks).
          shape (fst (((cw, rw) # ws) ! i)) = [b, enc_n_heads (snd ((p # blks) ! i)), n, n] \<and>
          shape (snd (((cw, rw) # ws) ! i)) = [1, enc_n_heads (snd ((p # blks) ! i)), b, b]"
  proof (intro allI impI)
    fix i assume "i < length (p # blks)"
    then show "shape (fst (((cw, rw) # ws) ! i)) = [b, enc_n_heads (snd ((p # blks) ! i)), n, n] \<and>
          shape (snd (((cw, rw) # ws) ! i)) = [1, enc_n_heads (snd ((p # blks) ! i)), b, b]"
      using cw ih(5) p by (cases i) auto
  qed
  with w ih b' show ?case by simp
qed

lemma Sequential_forward_ok:
  assumes "\<forall>p \<in> set blks. enc_n_feat (snd p) = n \<and> enc_input_dim (snd p) = d"
    and "shape x = [b, n, d]"
  shows "\<exists>blks' y. Sequential_forward num blks x = Inr (blks', y)"
  using assms
proof (induction blks arbitrary: x)
  case Nil
  then show ?case by simp
next
  case (Cons p blks)
  obtain name blk where p: "p = (name, blk)" by (cases p)
  from Cons.prems p have "shape x = [b, enc_n_feat blk, enc_input_dim blk]" by simp
  from SaintEncoder_forward_ok [OF this] obtain blk' y1 where
    f: "SaintEncoder_forward num name blk x = Inr (blk', y1)" by blast
  from SaintEncoder_forward_Inr(3) [OF f Cons.prems(2)] have "shape y1 = [b, n, d]" .
  with Cons.IH [of y1] Cons.prems(1) obtain rest' y where
    "Sequential_forward num blks y1 = Inr (rest', y)" by auto
  with f p show ?case by simp
qed

lemma Sequential_forward_error: "Sequential_forward num blks x = Inl e \<Longrightarrow> e = RuntimeError"
proof (induction blks arbitrary: x)
  case Nil
  then show ?case by simp
next
  case (Cons p blks)
  obtain name blk where p: "p = (name, blk)" by (cases p)
  from Cons.prems p show ?case
    by (auto simp: SaintEncoder_forward_def split: sum.splits prod.splits list.splits if_splits
        dest: Cons.IH)
qed

subsection \<open>The constructed model and its token sequence\<close>

lemma SAINT_init_simps:
  "scfg (SAINT_init c) = c"
  "with_cls_token (SAINT_init c) = (column_idx c ''cls_token'' \<noteq> None)"
  "n_cat (SAINT_init c) = count_cols (cat_embed_input c)"
  "n_cont (SAINT_init c) = count_cols (continuous_cols c)"
  "n_feats (SAINT_init c) = count_cols (cat_embed_input c) + count_cols (continuous_cols c)"
  "e_embed_dim (cat_and_cont_embed (SAINT_init c)) = input_dim c"
  "e_cat_embed_input (cat_and_cont_embed (SAINT_init c)) = cat_embed_input c"
  "e_continuous_cols (cat_and_cont_embed (SAINT_init c)) = continuous_cols c"
  "transformer_blks (SAINT_init c) =
     make_blocks c (count_cols (cat_embed_input c) + count_cols (continuous_cols c))"
  "d_hidden (transformer_mlp (SAINT_init c)) =
     saint_mlp_dims (if column_idx c ''cls_token'' \<noteq> None then input_dim c
                     else (count_cols (cat_embed_input c) + count_cols (continuous_cols c)) * input_dim c)
       (mlp_hidden_dims c)"
  "saint_output_dim (SAINT_init c) =
     last (saint_mlp_dims (if column_idx c ''cls_token'' \<noteq> None then input_dim c
                     else (count_cols (cat_embed_input c) + count_cols (continuous_cols c)) * input_dim c)
       (mlp_hidden_dims c))"
  by (simp_all add: SAINT_init_def Let_def)

text \<open>The constructed model keeps no attention weights, and a forward call changes
  nothing but the attention weights. So \<open>forget_weights m = SAINT_init c\<close> holds of the
  model constructed from \<open>c\<close> and of every model that forward calls make of it.\<close>

lemma forget_block_new_block: "forget_block (new_block c nf) = new_block c nf"
  by (simp add: forget_block_def new_block_def)

lemma forget_weights_init: "forget_weights (SAINT_init c) = SAINT_init c"
  by (simp add: forget_weights_def SAINT_init_def Let_def make_blocks_eq forget_block_new_block)

lemma SaintEncoder_forward_forget:
  "SaintEncoder_forward num name blk x = Inr (blk', y) \<Longrightarrow> forget_block blk' = forget_block blk"
  by (auto simp: SaintEncoder_forward_def forget_block_def split: list.splits if_splits)

lemma Sequential_forward_forget:
  "Sequential_forward num blks x = Inr (blks', y) \<Longrightarrow>
     map (\<lambda>(name, b). (name, forget_block b)) blks' = map (\<lambda>(name, b). (name, forget_block b)) blks"
proof (induction blks arbitrary: x blks')
  case Nil
  then show ?case by simp
next
  case (Cons p blks)
  obtain name blk where p: "p = (name, blk)" by (cases p)
  from Cons.prems p obtain blk' y1 rest' where
    f: "SaintEncoder_forward num name blk x = Inr (blk', y1)"
    and r: "Sequential_forward num blks y1 = Inr (rest', y)"
    and b': "blks' = (name, blk') # rest'"
    by (auto split: sum.splits prod.splits)
  from Cons.IH [OF r] SaintEncoder_forward_forget [OF f] b' p show ?case by simp
qed

lemma SAINT_forward_Inr:
  assumes "SAINT_forward num m X = Inr (m', r)"
  shows "\<exists>x blks y z. feature_tokens num m X = Inr x \<and>
           Sequential_forward num (transformer_blks m) x = Inr (blks, y) \<and>
           reduce_tokens m y = Inr z \<and> MLP_forward num (transformer_mlp m) z = Inr r \<and>
           m' = m\<lparr>transformer_blks := blks\<rparr>"
  using assms
  by (auto simp: SAINT_forward_def split: sum.splits prod.splits)

lemma SAINT_forward_forget:
  assumes "SAINT_forward num m X = Inr (m', r)"
  shows "forget_weights m' = forget_weights m"
proof -
  from SAINT_forward_Inr [OF assms] obtain x blks y where
    "Sequential_forward num (transformer_blks m) x = Inr (blks, y)"
    "m' = m\<lparr>transformer_blks := blks\<rparr>" by blast
  with Sequential_forward_forget [of num "transformer_blks m" x blks y]
  show ?thesis by (simp add: forget_weights_def)
qed

lemma model_fields:
  fixes m :: "'a SAINT"
  assumes "forget_weights m = SAINT_init c"
  shows "scfg m = c"
    and "with_cls_token m = (column_idx c ''cls_token'' \<noteq> None)"
    and "n_cat m = count_cols (cat_embed_input c)"
    and "n_cont m = count_cols (continuous_cols c)"
    and "n_feats m = count_cols (cat_embed_input c) + count_cols (continuous_cols c)"
    and "e_embed_dim (cat_and_cont_embed m) = input_dim c"
    and "e_cat_embed_input (cat_and_cont_embed m) = cat_embed_input c"
    and "e_continuous_cols (cat_and_cont_embed m) = continuous_cols c"
    and "d_hidden (transformer_mlp m) =
           saint_mlp_dims (if column_idx c ''cls_token'' \<noteq> None then input_dim c
                           else (count_cols (cat_embed_input c) + count_cols (continuous_cols c)) * input_dim c)
             (mlp_hidden_dims c)"
    and "saint_output_dim m = last (d_hidden (transformer_mlp m))"
proof -
  let ?i = "SAINT_init c :: 'a SAINT"
  have k: "scfg (forget_weights m) = scfg m" "with_cls_token (forget_weights m) = with_cls_token m"
    "n_cat (forget_weights m) = n_cat m" "n_cont (forget_weights m) = n_cont m"
    "n_feats (forget_weights m) = n_feats m"
    "cat_and_cont_embed (forget_weights m) = cat_and_cont_embed m"
    "transformer_mlp (forget_weights m) = transformer_mlp m"
    "saint_output_dim (forget_weights m) = saint_output_dim m"
    by (simp_all add: forget_weights_def)
  have o: "scfg m = scfg ?i" "with_cls_token m = with_cls_token ?i" "n_cat m = n_cat ?i"
    "n_cont m = n_cont ?i" "n_feats m = n_feats ?i"
    "cat_and_cont_embed m = cat_and_cont_embed ?i" "transformer_mlp m = transformer_mlp ?i"
    "saint_output_dim m = saint_output_dim ?i"
    using k by (simp_all add: assms)
  show "scfg m = c" by (simp add: o SAINT_init_simps)
  show "with_cls_token m = (column_idx c ''cls_token'' \<noteq> None)" by (simp add: o SAINT_init_simps)
  show "n_cat m = count_cols (cat_embed_input c)" by (simp add: o SAINT_init_simps)
  show "n_cont m = count_cols (continuous_cols c)" by (simp add: o SAINT_init_simps)
  show "n_feats m = count_cols (cat_embed_input c) + count_cols (continuous_cols c)"
    by (simp add: o SAINT_init_simps)
  show "e_embed_dim (cat_and_cont_embed m) = input_dim c"
    "e_cat_embed_input (cat_and_cont_embed m) = cat_embed_input c"
    "e_continuous_cols (cat_and_cont_embed m) = continuous_cols c"
    by (simp_all add: o SAINT_init_simps)
  show "d_hidden (transformer_mlp m) =
           saint_mlp_dims (if column_idx c ''cls_token'' \<noteq> None then input_dim c
                           else (count_cols (cat_embed_input c) + count_cols (continuous_cols c)) * input_dim c)
             (mlp_hidden_dims c)"
    by (simp add: o SAINT_init_simps)
  show "saint_output_dim m = last (d_hidden (transformer_mlp m))"
    by (simp add: o SAINT_init_simps)
qed

lemma model_blocks:
  fixes m :: "'a SAINT"
  assumes "forget_weights m = SAINT_init c"
  shows "length (transformer_blks m) = nat (n_blocks c)"
    and "\<forall>p \<in> set (transformer_blks m).
           enc_n_feat (snd p) = count_cols (cat_embed_input c) + count_cols (continuous_cols c) \<and>
           enc_input_dim (snd p) = input_dim c \<and> enc_n_heads (snd p) = n_heads c"
proof -
  let ?F = "count_cols (cat_embed_input c) + count_cols (continuous_cols c)"
  have "transformer_blks (forget_weights m) =
          map (\<lambda>(name, b). (name, forget_block b)) (transformer_blks m)"
    by (simp add: forget_weights_def)
  with assms have e: "map (\<lambda>(name, b). (name, forget_block b)) (transformer_blks m) =
                       (make_blocks c ?F :: 'a Sequential)"
    by (simp add: SAINT_init_simps)
  from arg_cong [OF e, of length] show "length (transformer_blks m) = nat (n_blocks c)"
    by (simp add: make_blocks_props)
  show "\<forall>p \<in> set (transformer_blks m).
           enc_n_feat (snd p) = ?F \<and> enc_input_dim (snd p) = input_dim c \<and>
           enc_n_heads (snd p) = n_heads c"
  proof
    fix p assume "p \<in> set (transformer_blks m)"
    then have "(\<lambda>(name, b). (name, forget_block b)) p \<in>
                 set (map (\<lambda>(name, b). (name, forget_block b)) (transformer_blks m))"
      by (auto intro!: image_eqI [where x = p])
    with e have "(\<lambda>(name, b). (name, forget_block b)) p \<in> set (make_blocks c ?F :: 'a Sequential)"
      by simp
    from make_blocks_props(2) [OF this] have "forget_block (snd p) = new_block c ?F"
      by (cases p) simp
    from arg_cong [OF this, of enc_n_feat] arg_cong [OF this, of enc_input_dim]
      arg_cong [OF this, of enc_n_heads]
    show "enc_n_feat (snd p) = ?F \<and> enc_input_dim (snd p) = input_dim c \<and>
          enc_n_heads (snd p) = n_heads c"
      by (simp add: forget_block_def new_block_simps)
  qed
qed

lemma feature_tokens_ok:
  fixes m :: "'a SAINT"
  assumes "forget_weights m = SAINT_init c"
    and "shape X = [B, k]" and "cat_embed_input c \<noteq> None \<or> continuous_cols c \<noteq> None"
  shows "\<exists>x. feature_tokens num m X = Inr x \<and> shape x = [B, n_feats m, input_dim c]"
  using assms(2,3)
  by (auto simp: feature_tokens_def SameSizeCatAndContEmbeddings_forward_def
      model_fields [OF assms(1)] assemble_tokens_def torch_cat_def Let_def count_cols_def
      split: option.splits)

lemma feature_tokens_Inr:
  fixes m :: "'a SAINT"
  assumes "forget_weights m = SAINT_init c" and "feature_tokens num m X = Inr x"
  shows "\<exists>B k. shape X = [B, k] \<and> shape x = [B, n_feats m, input_dim c]"
  using assms(2)
  by (auto simp: feature_tokens_def SameSizeCatAndContEmbeddings_forward_def
      model_fields [OF assms(1)] assemble_tokens_def torch_cat_def Let_def count_cols_def
      split: list.splits option.splits if_splits)

lemma blocks_accept_tokens:
  fixes m :: "'a SAINT"
  assumes "forget_weights m = SAINT_init c" and "shape x = [B, n_feats m, input_dim c]"
  shows "\<exists>blks y. Sequential_forward num (transformer_blks m) x = Inr (blks, y) \<and>
                  shape y = [B, n_feats m, input_dim c]"
proof -
  from model_blocks(2) [OF assms(1)] model_fields(5) [OF assms(1)]
  have "\<forall>p \<in> set (transformer_blks m). enc_n_feat (snd p) = n_feats m \<and> enc_input_dim (snd p) = input_dim c"
    by simp
  from Sequential_forward_ok [OF this assms(2), of num] obtain blks y where
    f: "Sequential_forward num (transformer_blks m) x = Inr (blks, y)" by blast
  from Sequential_forward_Inr [OF f assms(2)] f show ?thesis by simp
qed

lemma example_saint_config_simps:
  "cat_embed_input example_saint_config = Some [(''a'', 4), (''b'', 4), (''c'', 4), (''d'', 4)]"
  "continuous_cols example_saint_config = Some [''e'']"
  "column_idx example_saint_config ''cls_token'' = None"
  "input_dim example_saint_config = 32"
  "n_heads example_saint_config = 8"
  "n_blocks example_saint_config = 2"
  "mlp_hidden_dims example_saint_config = None"
  by (simp_all add: example_saint_config_def)


lemma example_saint_fresh:
  "forget_weights example_saint = SAINT_init example_saint_config"
  "forget_weights example_cls_saint = SAINT_init example_cls_config"
  by (simp_all add: example_saint_def example_cls_saint_def forget_weights_init)

subsection \<open>Attention weights\<close>

text \<open>
  Claim C4. Take a SAINT model constructed from a configuration, as the constructor
  left it or as earlier forward calls left it. When \<^verbatim>\<open>forward\<close> has returned for an input
  of B rows, the property \<^verbatim>\<open>attention_weights\<close> returns a list with exactly one pair per
  block, \<^verbatim>\<open>n_blocks\<close> in all (the names \<^verbatim>\<open>"saint_block" + str(i)\<close> are pairwise different,
  so that no registration replaces another). In every pair the column attention has
  shape (B, heads, features, features) and the row attention has shape (1, heads, B, B),
  where features is \<^verbatim>\<open>n_feats\<close>. The model that the call leaves is again the constructed
  model up to its attention weights.
\<close>

theorem C4_attention_weights_shapes:
  fixes num :: "'a numerics"
  assumes "forget_weights m = SAINT_init c"
    and "SAINT_forward num m X = Inr (m', r)" and "shape X = [B, k]"
  shows "(\<exists>ws. attention_weights m' = Inr ws \<and> length ws = nat (n_blocks c) \<and>
           (\<forall>w \<in> set ws. shape (fst w) = [B, n_heads c, n_feats m', n_feats m'] \<and>
                          shape (snd w) = [1, n_heads c, B, B])) \<and>
         forget_weights m' = SAINT_init c"
proof -
  from SAINT_forward_Inr [OF assms(2)] obtain x blks y where
    ft: "feature_tokens num m X = Inr x"
    and sf: "Sequential_forward num (transformer_blks m) x = Inr (blks, y)"
    and m': "m' = m\<lparr>transformer_blks := blks\<rparr>"
    by blast
  from feature_tokens_Inr [OF assms(1) ft] assms(3)
  have sx: "shape x = [B, n_feats m, input_dim c]" by auto
  from Sequential_forward_Inr [OF sf sx] obtain ws where
    bw: "block_weights blks = Inr ws" and len: "length ws = length (transformer_blks m)"
    and sh: "\<forall>i < length (transformer_blks m).
         shape (fst (ws ! i)) = [B, enc_n_heads (snd (transformer_blks m ! i)), n_feats m, n_feats m] \<and>
         shape (snd (ws ! i)) = [1, enc_n_heads (snd (transformer_blks m ! i)), B, B]"
    by blast
  have nf: "n_feats m' = n_feats m" using m' by simp
  have "\<forall>w \<in> set ws. shape (fst w) = [B, n_heads c, n_feats m, n_feats m] \<and>
                      shape (snd w) = [1, n_heads c, B, B]"
  proof
    fix w assume "w \<in> set ws"
    then obtain i where i: "i < length ws" and w: "w = ws ! i" by (auto simp: in_set_conv_nth)
    from i len have "transformer_blks m ! i \<in> set (transformer_blks m)" by simp
    with model_blocks(2) [OF assms(1)]
    have h: "enc_n_heads (snd (transformer_blks m ! i)) = n_heads c" by blast
    from sh i len
    have "shape (fst (ws ! i)) = [B, enc_n_heads (snd (transformer_blks m ! i)), n_feats m, n_feats m] \<and>
          shape (snd (ws ! i)) = [1, enc_n_heads (snd (transformer_blks m ! i)), B, B]"
      by simp
    with w h show "shape (fst w) = [B, n_heads c, n_feats m, n_feats m] \<and>
                   shape (snd w) = [1, n_heads c, B, B]"
      by simp
  qed
  moreover from SAINT_forward_forget [OF assms(2)] assms(1)
  have "forget_weights m' = SAINT_init c" by simp
  ultimately show ?thesis
    using bw len m' nf model_blocks(1) [OF assms(1)] by (simp add: attention_weights_def)
qed

subsection \<open>Reduction of the token sequence\<close>


subsection \<open>Length of the token sequence\<close>


subsection \<open>The unassigned working tensor\<close>

lemma select_mid_error: "select_mid x i = Inl e \<Longrightarrow> e = IndexError"
  by (auto simp: select_mid_def py_index_def Let_def split: list.splits if_splits)

lemma flatten1_error: "flatten1 x = Inl e \<Longrightarrow> e = IndexError"
  by (auto simp: flatten1_def split: list.splits)

lemma reduce_tokens_error: "reduce_tokens m x = Inl e \<Longrightarrow> e = IndexError"
  by (auto simp: reduce_tokens_def split: if_splits dest: select_mid_error flatten1_error)

lemma assemble_tokens_error:
  "assemble_tokens x_cat x_cont = Inl e \<Longrightarrow>
     e = RuntimeError \<or> (e = UnboundLocalError ''x'' \<and> x_cat = None \<and> x_cont = None)"
  by (auto simp: assemble_tokens_def split: option.splits dest: torch_cat_error)

lemma feature_tokens_error:
  "feature_tokens num m X = Inl e \<Longrightarrow>
     e = RuntimeError \<or>
     (e = UnboundLocalError ''x'' \<and> e_cat_embed_input (cat_and_cont_embed m) = None \<and>
      e_continuous_cols (cat_and_cont_embed m) = None)"
  by (auto simp: feature_tokens_def SameSizeCatAndContEmbeddings_forward_def
      split: sum.splits list.splits prod.splits dest!: assemble_tokens_error)

text \<open>
  Claim C10. When both token tensors are absent the local \<^verbatim>\<open>x\<close> is never assigned:
  whenever the embedding composer returns \<^verbatim>\<open>(None, None)\<close>, \<^verbatim>\<open>forward\<close> raises
  \<^verbatim>\<open>UnboundLocalError\<close> for \<^verbatim>\<open>x\<close>, at the call of the transformer blocks and before any of
  them runs. When \<^verbatim>\<open>cat_embed_input\<close> or \<^verbatim>\<open>continuous_cols\<close> is configured, \<^verbatim>\<open>forward\<close>
  never fails in this way, whatever the input.
\<close>

theorem C10_forward_needs_a_token_tensor:
  fixes num :: "'a numerics"
  assumes "forget_weights m = SAINT_init c"
  shows "assemble_tokens None None = (Inl (UnboundLocalError ''x'') :: error + 'a tensor) \<and>
         (\<forall>X. SameSizeCatAndContEmbeddings_forward num (cat_and_cont_embed m) X = Inr (None, None) \<longrightarrow>
               SAINT_forward num m X = Inl (UnboundLocalError ''x'')) \<and>
         (cat_embed_input c \<noteq> None \<or> continuous_cols c \<noteq> None \<longrightarrow>
            (\<forall>X. SAINT_forward num m X \<noteq> Inl (UnboundLocalError ''x'')))"
proof (intro conjI allI impI)
  show "assemble_tokens None None = (Inl (UnboundLocalError ''x'') :: error + 'a tensor)"
    by (simp add: assemble_tokens_def)
next
  fix X
  assume "SameSizeCatAndContEmbeddings_forward num (cat_and_cont_embed m) X = Inr (None, None)"
  then show "SAINT_forward num m X = Inl (UnboundLocalError ''x'')"
    by (simp add: SAINT_forward_def feature_tokens_def assemble_tokens_def)
next
  fix X
  assume c: "cat_embed_input c \<noteq> None \<or> continuous_cols c \<noteq> None"
  show "SAINT_forward num m X \<noteq> Inl (UnboundLocalError ''x'')"
  proof
    assume "SAINT_forward num m X = Inl (UnboundLocalError ''x'')"
    then show False
      using c
      by (auto simp: SAINT_forward_def model_fields [OF assms] split: sum.splits prod.splits
          dest: feature_tokens_error Sequential_forward_error reduce_tokens_error MLP_forward_error)
  qed
qed

subsection \<open>The width of the result of SAINT\<close>

text \<open>For a model with categorical or continuous columns (and at least one token when
  the summary token is used) \<^verbatim>\<open>forward\<close> returns, for an input of B rows, a tensor of
  shape (B, \<^verbatim>\<open>output_dim\<close>).\<close>

lemma reduce_tokens_shape:
  assumes "shape y = [B, F, D]" and "with_cls_token m \<longrightarrow> 1 \<le> F"
  shows "\<exists>z. reduce_tokens m y = Inr z \<and> shape z = [B, if with_cls_token m then D else F * D]"
  using assms by (auto simp: reduce_tokens_def select_mid_def py_index_def flatten1_def)

lemma MLP_forward_saint:
  "shape z = [B, a] \<Longrightarrow> d_hidden mlp = saint_mlp_dims a hs \<Longrightarrow>
     MLP_forward num mlp z = Inr \<lparr>shape = [B, last (saint_mlp_dims a hs)], elem = num ''mlp'' [z]\<rparr>"
  by (simp add: MLP_forward_def saint_mlp_dims_def split: option.splits list.splits)

lemma SAINT_forward_width:
  fixes num :: "'a numerics"
  assumes "forget_weights m = SAINT_init c" and "shape X = [B, k]"
    and "cat_embed_input c \<noteq> None \<or> continuous_cols c \<noteq> None"
    and "column_idx c ''cls_token'' \<noteq> None \<longrightarrow> 1 \<le> n_feats m"
  shows "\<exists>m' r. SAINT_forward num m X = Inr (m', r) \<and> shape r = [B, saint_output_dim m]"
proof -
  let ?a = "if column_idx c ''cls_token'' \<noteq> None then input_dim c else n_feats m * input_dim c"
  from feature_tokens_ok [OF assms(1-3), of num] obtain x where
    x: "feature_tokens num m X = Inr x" "shape x = [B, n_feats m, input_dim c]" by blast
  from blocks_accept_tokens [OF assms(1) x(2), of num] obtain blks y where
    y: "Sequential_forward num (transformer_blks m) x = Inr (blks, y)"
       "shape y = [B, n_feats m, input_dim c]"
    by blast
  from reduce_tokens_shape [OF y(2), of m] assms(4) obtain z where
    z: "reduce_tokens m y = Inr z" "shape z = [B, ?a]"
    by (auto simp: model_fields [OF assms(1)])
  have "d_hidden (transformer_mlp m) = saint_mlp_dims ?a (mlp_hidden_dims c)"
    by (simp add: model_fields [OF assms(1)])
  from MLP_forward_saint [OF z(2) this, of num]
  have "MLP_forward num (transformer_mlp m) z =
          Inr \<lparr>shape = [B, saint_output_dim m], elem = num ''mlp'' [z]\<rparr>"
    by (simp add: model_fields [OF assms(1)])
  with x y z show ?thesis
    by (simp add: SAINT_forward_def)
qed

lemma example_saint_forward:
  fixes m :: "int SAINT"
  assumes "forget_weights m = SAINT_init example_saint_config"
  shows "\<exists>m' r. SAINT_forward example_num m example_X = Inr (m', r) \<and> shape r = [5, 320]"
proof -
  have "shape example_X = [5, 5]" by (simp add: example_X_def)
  from SAINT_forward_width [OF assms this, of example_num]
  show ?thesis
    by (simp add: example_saint_config_simps model_fields [OF assms] count_cols_def
        saint_mlp_dims_def)
qed

subsection \<open>The scenario of the specification\<close>

text \<open>A batch of 5 samples, 4 categorical columns and 1 continuous column, model
  dimension 32, 2 blocks, 8 heads, no summary token: after a first and after a second
  forward call the list of attention weights has length 2.\<close>

theorem C4_witness:
  "forget_weights example_saint = SAINT_init example_saint_config \<and>
   shape example_X = [5, 5] \<and>
   n_blocks example_saint_config = 2 \<and>
   \<not> isl (SAINT_forward example_num example_saint example_X) \<and>
   length (projr (attention_weights (fst (projr (SAINT_forward example_num example_saint example_X))))) = 2 \<and>
   list_all (\<lambda>w. shape (fst w) = [5, 8, 5, 5] \<and> shape (snd w) = [1, 8, 5, 5])
     (projr (attention_weights (fst (projr (SAINT_forward example_num example_saint example_X))))) \<and>
   \<not> isl (SAINT_forward example_num
            (fst (projr (SAINT_forward example_num example_saint example_X))) example_X) \<and>
   length (projr (attention_weights (fst (projr (SAINT_forward example_num
            (fst (projr (SAINT_forward example_num example_saint example_X))) example_X))))) = 2"
proof -
  have sx: "shape example_X = [5, 5]" by (simp add: example_X_def)
  note fresh = example_saint_fresh(1)
  from example_saint_forward [OF fresh] obtain m1 r1 where
    f1: "SAINT_forward example_num example_saint example_X = Inr (m1, r1)" by blast
  note t1 = C4_attention_weights_shapes [OF fresh f1 sx]
  from t1 have k1: "forget_weights m1 = SAINT_init example_saint_config" by blast
  from model_fields(5) [OF k1] have nf: "n_feats m1 = 5"
    by (simp add: example_saint_config_simps count_cols_def)
  from t1 obtain ws where
    ws: "attention_weights m1 = Inr ws" "length ws = nat (n_blocks example_saint_config)"
      "\<forall>w \<in> set ws. shape (fst w) = [5, n_heads example_saint_config, n_feats m1, n_feats m1] \<and>
                     shape (snd w) = [1, n_heads example_saint_config, 5, 5]"
    by blast
  from ws nf have a: "length ws = 2"
    "list_all (\<lambda>w. shape (fst w) = [5, 8, 5, 5] \<and> shape (snd w) = [1, 8, 5, 5]) ws"
    by (simp_all add: example_saint_config_simps list_all_iff)
  from example_saint_forward [OF k1] obtain m2 r2 where
    f2: "SAINT_forward example_num m1 example_X = Inr (m2, r2)" by blast
  from C4_attention_weights_shapes [OF k1 f2 sx] obtain ws2 where
    ws2: "attention_weights m2 = Inr ws2" "length ws2 = nat (n_blocks example_saint_config)"
    by blast
  from ws2 have b: "length ws2 = 2" by (simp add: example_saint_config_simps)
  from fresh sx f1 ws(1) a f2 ws2(1) b show ?thesis
    by (simp add: example_saint_config_simps)
qed



theorem C10_witness:
  "forget_weights (SAINT_init example_empty_config :: int SAINT) = SAINT_init example_empty_config \<and>
   SameSizeCatAndContEmbeddings_forward example_num
     (cat_and_cont_embed (SAINT_init example_empty_config :: int SAINT)) example_X = Inr (None, None) \<and>
   SAINT_forward example_num (SAINT_init example_empty_config) example_X =
     Inl (UnboundLocalError ''x'') \<and>
   forget_weights example_saint = SAINT_init example_saint_config \<and>
   cat_embed_input example_saint_config \<noteq> None \<and>
   SAINT_forward example_num example_saint example_X \<noteq> Inl (UnboundLocalError ''x'')"
proof -
  have e: "SameSizeCatAndContEmbeddings_forward example_num
     (cat_and_cont_embed (SAINT_init example_empty_config :: int SAINT)) example_X = Inr (None, None)"
    by (simp add: SameSizeCatAndContEmbeddings_forward_def SAINT_init_simps example_empty_config_def
        example_X_def)
  have c: "cat_embed_input example_saint_config \<noteq> None"
    by (simp add: example_saint_config_simps)
  from C10_forward_needs_a_token_tensor [OF forget_weights_init, of example_num example_empty_config] e
  have a: "SAINT_forward example_num (SAINT_init example_empty_config) example_X =
     Inl (UnboundLocalError ''x'')"
    by blast
  from C10_forward_needs_a_token_tensor [OF example_saint_fresh(1), of example_num] c
  have b: "SAINT_forward example_num example_saint example_X \<noteq> Inl (UnboundLocalError ''x'')"
    by blast
  from e a b c example_saint_fresh(1) forget_weights_init [of example_empty_config, where ?'a = int]
  show ?thesis by blast
qed

end
